theory Spec2Isabelle
  imports Main
begin

chapter \<open>Project Scribe: the validation pipeline of scribe0.py\<close>

text \<open>
  A shallow embedding of the step pipeline of \<^verbatim>\<open>src/scribe0.py\<close>: the orchestrator
  \<^verbatim>\<open>ScribeAgent\<close>, the step methods of \<^verbatim>\<open>WorkflowSteps\<close> that the properties below
  talk about, the tool runner, the environment manager and the LLM client.
  Python exceptions are values of sum types, the mutable agent object is a record that is
  passed along and returned, and everything outside the program (the operating system, the
  external tools, the inference backend, Python's parser) is a parameter of the model.
  Wall-clock fields of the report (start and end time, durations) are left out.
\<close>

section \<open>Statuses, detail payloads, step results\<close>

text \<open>The six \<^verbatim>\<open>STATUS_*\<close> string constants.\<close>

datatype status =
  STATUS_SUCCESS | STATUS_FAILURE | STATUS_WARNING | STATUS_SKIPPED | STATUS_ADVISORY | STATUS_PENDING

text \<open>The values that the modelled steps store in a details dictionary.\<close>

datatype pyval = PyNone | PyStr string | PyInt int | PyFindings "(string \<times> string) list list"

text \<open>A details dictionary (\<^verbatim>\<open>StepOutputDetails\<close>), keys in insertion order.\<close>

type_synonym details = "(string \<times> pyval) list"

text \<open>\<^verbatim>\<open>StepResult\<close> without its time stamps.\<close>

record step_result =
  name :: string
  status :: status
  details :: "details option"
  error_message :: "string option"

text \<open>
  What calling a step method does: it returns a \<^verbatim>\<open>(status, details)\<close> pair, raises a
  \<^verbatim>\<open>ScribeError\<close> (message and its \<^verbatim>\<open>details\<close> attribute), or raises another
  \<^verbatim>\<open>Exception\<close> (type name and message, and the formatted traceback).
\<close>

datatype step_outcome =
  Returned status details
| RaisedScribeError string details
| RaisedException string string string

text \<open>
  A step method is called with the dependency payload or with no argument (\<open>None\<close>); it
  reads and changes the world outside the orchestrator, of type \<open>'w\<close>.
\<close>

type_synonym 'w step_func = "details option \<Rightarrow> 'w \<Rightarrow> step_outcome \<times> 'w"

text \<open>
  \<^verbatim>\<open>getattr(self._workflow, step_name, None)\<close> followed by \<^verbatim>\<open>callable\<close>: the names that
  resolve to a callable attribute of the workflow object, with their behaviour.
\<close>

type_synonym 'w workflow = "string \<Rightarrow> 'w step_func option"

text \<open>
  The fields of \<^verbatim>\<open>ScribeAgent\<close> that \<^verbatim>\<open>run\<close> reads and writes. \<open>workflow\<close> is
  \<open>None\<close> when the attribute \<^verbatim>\<open>_workflow\<close> is missing or \<^verbatim>\<open>None\<close>. \<open>steps\<close>,
  \<open>overall_status\<close> and \<open>commit_attempted\<close> are the entries of \<^verbatim>\<open>_report_data\<close>.
  \<open>invoked\<close> is not a field of the program: it logs the name of every step method the
  orchestrator calls, in order.
\<close>

record 'w agent =
  review_only :: bool
  no_commit :: bool
  do_commit :: bool
  workflow :: "'w workflow option"
  validation_steps :: "string list"
  overall_success :: bool
  steps :: "step_result list"
  overall_status :: status
  commit_attempted :: bool
  world :: 'w
  invoked :: "string list"

section \<open>Python strings\<close>

abbreviation NL :: char where "NL \<equiv> CHR 0x0A"

text \<open>\<^verbatim>\<open>str.isspace\<close> on the code points below 256.\<close>

definition py_isspace :: "char \<Rightarrow> bool" where
  "py_isspace c = (of_char c \<in> {9, 10, 11, 12, 13, 28, 29, 30, 31, 32, 133, 160 :: nat})"

text \<open>\<^verbatim>\<open>str.strip()\<close>.\<close>

definition strip :: "string \<Rightarrow> string" where
  "strip s = rev (dropWhile py_isspace (rev (dropWhile py_isspace s)))"

text \<open>\<^verbatim>\<open>sep.join(parts)\<close>.\<close>

fun py_join :: "string \<Rightarrow> string list \<Rightarrow> string" where
  "py_join sep [] = []"
| "py_join sep [x] = x"
| "py_join sep (x # y # ys) = x @ sep @ py_join sep (y # ys)"

text \<open>\<^verbatim>\<open>str(n)\<close> for an integer.\<close>

fun str_nat :: "nat \<Rightarrow> string" where
  "str_nat n = (if n < 10 then [char_of (48 + n)] else str_nat (n div 10) @ [char_of (48 + n mod 10)])"

declare str_nat.simps [simp del]

definition str_int :: "int \<Rightarrow> string" where
  "str_int i = (if i < 0 then CHR ''-'' # str_nat (nat (- i)) else str_nat (nat i))"

text \<open>The backtick of the fences.\<close>

abbreviation BT :: char where "BT \<equiv> CHR 0x60"

text \<open>The single quote that the messages put around names.\<close>

abbreviation SQ :: char where "SQ \<equiv> CHR 0x27"

section \<open>The tool runner\<close>

text \<open>\<^verbatim>\<open>subprocess.CompletedProcess\<close>.\<close>

record completed_process =
  args :: "string list"
  returncode :: int
  stdout :: string
  stderr :: string

text \<open>\<^verbatim>\<open>ScribeToolError\<close> with its message.\<close>

datatype scribe_tool_error = ScribeToolError string

text \<open>
  What \<^verbatim>\<open>subprocess.run\<close> does with \<^verbatim>\<open>check=False\<close>: the process ends with an exit code
  and its two streams; or the timeout expires, with the output captured so far (which
  may be \<open>None\<close>); or another exception is raised (the process could not be started), with
  its text.
\<close>

datatype subprocess_outcome =
  Completed int string string
| TimeoutExpired "string option" "string option"
| RaisesException string

text \<open>
  What \<^verbatim>\<open>_find_executable\<close> looks at: the configured \<^verbatim>\<open>tool_paths\<close>, which paths are
  executable files, the \<^verbatim>\<open>bin\<close> directory of the virtual environment when one is given
  and is a directory, and \<^verbatim>\<open>shutil.which\<close>.
\<close>

record resolver =
  tool_paths :: "string \<Rightarrow> string option"
  executable_file :: "string \<Rightarrow> bool"
  venv_bin_dir :: "string option"
  which :: "string \<Rightarrow> string option"

text \<open>
  \<^verbatim>\<open>ToolRunner._find_executable\<close> on a POSIX platform; \<open>None\<close> is \<^verbatim>\<open>FileNotFoundError\<close>.
\<close>

definition find_executable :: "resolver \<Rightarrow> string \<Rightarrow> string option" where
  "find_executable r executable_name =
     (let configured =
            (case tool_paths r executable_name of
               None \<Rightarrow> None
             | Some custom \<Rightarrow>
                 if strip custom \<noteq> [] \<and> executable_file r custom then Some custom else None);
          in_venv =
            (case venv_bin_dir r of
               None \<Rightarrow> None
             | Some bin_dir \<Rightarrow>
                 if executable_file r (bin_dir @ ''/'' @ executable_name)
                 then Some (bin_dir @ ''/'' @ executable_name) else None)
      in case configured of
           Some p \<Rightarrow> Some p
         | None \<Rightarrow> (case in_venv of Some p \<Rightarrow> Some p | None \<Rightarrow> which r executable_name))"

text \<open>
  \<^verbatim>\<open>ToolRunner.run_tool\<close>. \<open>quote\<close> is \<^verbatim>\<open>shlex.quote\<close>, \<open>shown_timeout\<close> the text of the
  effective timeout in the message, and \<open>run_subprocess\<close> the behaviour of the operating
  system on the full command.
\<close>

definition run_tool ::
  "resolver \<Rightarrow> (string \<Rightarrow> string) \<Rightarrow> string \<Rightarrow> (string list \<Rightarrow> subprocess_outcome) \<Rightarrow> string list
     \<Rightarrow> scribe_tool_error + completed_process" where
  "run_tool r quote shown_timeout run_subprocess command_args =
     (case command_args of
        [] \<Rightarrow> Inr \<lparr>args = [], returncode = 127, stdout = [], stderr = ''No command.''\<rparr>
      | exec_name # more_args \<Rightarrow>
          (case find_executable r exec_name of
             None \<Rightarrow> Inl (ScribeToolError (''Executable '' @ [SQ] @ exec_name @ [SQ] @ '' not found.''))
           | Some exec_path \<Rightarrow>
               (let full_cmd = exec_path # more_args;
                    cmd_str = py_join '' '' (map quote full_cmd)
                in case run_subprocess full_cmd of
                     Completed rc out err \<Rightarrow>
                       Inr \<lparr>args = full_cmd, returncode = rc, stdout = out, stderr = err\<rparr>
                   | TimeoutExpired out err \<Rightarrow>
                       (let out' = (case out of None \<Rightarrow> [] | Some s \<Rightarrow> s);
                            err' = (case err of None \<Rightarrow> [] | Some s \<Rightarrow> s);
                            timeout_err = ''TimeoutExpired: Cmd '' @ [SQ] @ cmd_str @ [SQ] @ '' > ''
                                            @ shown_timeout @ ''s.''
                        in Inr \<lparr>args = full_cmd, returncode = - 1, stdout = out',
                                 stderr = strip (timeout_err @ [NL] @ err')\<rparr>)
                   | RaisesException msg \<Rightarrow>
                       Inl (ScribeToolError
                              (''OS error executing '' @ [SQ] @ exec_name @ [SQ] @ '': '' @ msg)))))"

section \<open>The environment manager\<close>

text \<open>What is at the path of the virtual environment.\<close>

datatype path_kind = Missing | RegularFile | Directory

text \<open>
  The facts about the file system that \<^verbatim>\<open>setup_venv\<close> reads: what is at
  \<^verbatim>\<open>target_dir/.venv\<close>, and whether \<^verbatim>\<open>bin/python\<close> and \<^verbatim>\<open>bin/pip\<close> in it are
  executable files.
\<close>

record venv_files =
  venv_kind :: path_kind
  python_is_executable :: bool
  pip_is_executable :: bool

text \<open>
  The environment manager with its surroundings: the file system, the two paths it
  remembers, and two counters that are not in the program: how often the command that
  creates the environment was run, and how often the upgrade command was.
\<close>

record env_manager =
  files :: venv_files
  venv_python_path :: "string option"
  pip_path :: "string option"
  creations :: nat
  upgrades :: nat

datatype scribe_environment_error = ScribeEnvironmentError string

text \<open>\<^verbatim>\<open>EnvironmentManager.find_venv_executable\<close> for the two names that are asked for.\<close>

definition find_venv_executable :: "string \<Rightarrow> venv_files \<Rightarrow> string \<Rightarrow> string option" where
  "find_venv_executable venv_path fs nm =
     (if venv_kind fs \<noteq> Directory then None
      else if (nm = ''python'' \<and> python_is_executable fs) \<or> (nm = ''pip'' \<and> pip_is_executable fs)
      then Some (venv_path @ ''/bin/'' @ nm)
      else None)"

text \<open>
  \<^verbatim>\<open>EnvironmentManager.setup_venv\<close>. \<open>create_venv\<close> is what \<^verbatim>\<open>run_tool\<close> returns for
  \<^verbatim>\<open>python -m venv\<close> together with the file system it leaves; \<open>upgrade_pip\<close> is what
  \<^verbatim>\<open>run_tool\<close> returns for the upgrade of pip, setuptools and wheel, which leaves the three
  facts of \<open>venv_files\<close> as they are. The result is the exception raised, if any, and the
  manager afterwards.
\<close>

definition setup_venv ::
  "string \<Rightarrow> (venv_files \<Rightarrow> (scribe_tool_error + completed_process) \<times> venv_files)
     \<Rightarrow> (venv_files \<Rightarrow> scribe_tool_error + completed_process)
     \<Rightarrow> env_manager \<Rightarrow> scribe_environment_error option \<times> env_manager" where
  "setup_venv venv_path create_venv upgrade_pip m =
     (let created =
            (if venv_kind (files m) = Missing then
               (case create_venv (files m) of
                  (res, fs') \<Rightarrow>
                    (let m1 = m\<lparr>files := fs', creations := creations m + 1\<rparr> in
                     case res of
                       Inl (ScribeToolError msg) \<Rightarrow>
                         (Some (ScribeEnvironmentError (''Venv create cmd error: '' @ msg)), m1)
                     | Inr res \<Rightarrow>
                         if returncode res \<noteq> 0 then
                           (Some (ScribeEnvironmentError
                                    (''Venv create fail (RC='' @ str_int (returncode res) @ ''). E: ''
                                       @ strip (stderr res))), m1)
                         else (None, m1)))
             else (None, m))
      in case created of
           (Some e, m1) \<Rightarrow> (Some e, m1)
         | (None, m1) \<Rightarrow>
             (let m2 = m1\<lparr>venv_python_path := find_venv_executable venv_path (files m1) ''python'',
                          pip_path := find_venv_executable venv_path (files m1) ''pip''\<rparr> in
              if venv_python_path m2 = None \<or> pip_path m2 = None then
                (Some (ScribeEnvironmentError (''Python/pip not in venv: '' @ venv_path)), m2)
              else
                (let m3 = m2\<lparr>upgrades := upgrades m2 + 1\<rparr> in
                 case upgrade_pip (files m2) of
                   Inl (ScribeToolError msg) \<Rightarrow> (None, m3)
                 | Inr res \<Rightarrow> if returncode res \<noteq> 0 then (None, m3) else (None, m3))))"

section \<open>The LLM client\<close>

subsection \<open>The two regular expressions of the code extraction\<close>

definition fence :: string where
  "fence = ''```''"

text \<open>The end of both patterns: a newline and a fence.\<close>

definition closing :: string where
  "closing = NL # fence"

text \<open>
  The lazy group \<^verbatim>\<open>(.*?)\<close> (with DOTALL) followed by the closing: the shortest text up to
  a closing, and what follows that closing; \<open>None\<close> when no closing follows.
\<close>

fun until_closing :: "string \<Rightarrow> (string \<times> string) option" where
  "until_closing [] = None"
| "until_closing (c # cs) =
     (if take 4 (c # cs) = closing then Some ([], drop 4 (c # cs))
      else (case until_closing cs of
              None \<Rightarrow> None
            | Some (body, rest) \<Rightarrow> Some (c # body, rest)))"

text \<open>
  The letters of \<^verbatim>\<open>python\<close> under IGNORECASE: each matches itself in either case.
\<close>

definition python_letters :: "(char \<times> char) list" where
  "python_letters =
     [(CHR ''p'', CHR ''P''), (CHR ''y'', CHR ''Y''), (CHR ''t'', CHR ''T''),
      (CHR ''h'', CHR ''H''), (CHR ''o'', CHR ''O''), (CHR ''n'', CHR ''N'')]"

definition matches_python :: "string \<Rightarrow> bool" where
  "matches_python s = list_all2 (\<lambda>c (l, u). c = l \<or> c = u) s python_letters"

text \<open>
  The start of the first pattern at the head of \<open>s\<close>: a fence, \<^verbatim>\<open>python\<close> and a newline.
  The result is the number of characters it takes.
\<close>

definition python_opening :: "string \<Rightarrow> nat option" where
  "python_opening s =
     (if take 3 s = fence \<and> matches_python (take 6 (drop 3 s)) \<and> take 1 (drop 9 s) = [NL]
      then Some 10 else None)"

text \<open>The characters of the class \<^verbatim>\<open>[a-zA-Z0-9_.-]\<close>.\<close>

definition tag_char :: "char \<Rightarrow> bool" where
  "tag_char c =
     (let n = (of_char c :: nat)
      in (97 \<le> n \<and> n \<le> 122) \<or> (65 \<le> n \<and> n \<le> 90) \<or> (48 \<le> n \<and> n \<le> 57)
         \<or> c = CHR ''_'' \<or> c = CHR ''.'' \<or> c = CHR ''-'')"

text \<open>
  The start of the second pattern at the head of \<open>s\<close>: a fence, the optional greedy run of
  tag characters and a newline. A newline is no tag character, so the run cannot give
  characters back: the newline has to follow the longest run.
\<close>

definition generic_opening :: "string \<Rightarrow> nat option" where
  "generic_opening s =
     (if take 3 s = fence then
        (let tag = takeWhile tag_char (drop 3 s)
         in if take 1 (drop (3 + length tag) s) = [NL] then Some (3 + length tag + 1) else None)
      else None)"

text \<open>
  One match of a pattern at the head of \<open>s\<close>: the group and the text after the match.
\<close>

definition match_here :: "(string \<Rightarrow> nat option) \<Rightarrow> string \<Rightarrow> (string \<times> string) option" where
  "match_here opening s =
     (case opening s of None \<Rightarrow> None | Some n \<Rightarrow> until_closing (drop n s))"

text \<open>
  \<^verbatim>\<open>re.findall\<close> for a pattern with one group: the groups of the matches, leftmost first,
  each search resuming where the previous match ended. A start position without a match
  is passed over.
\<close>

function findall :: "(string \<Rightarrow> nat option) \<Rightarrow> string \<Rightarrow> string list" where
  "findall opening [] = []"
| "findall opening (c # cs) =
     (case match_here opening (c # cs) of
        None \<Rightarrow> findall opening cs
      | Some (body, rest) \<Rightarrow> body # findall opening rest)"
  by pat_completeness auto
termination
proof -
  have until_closing_shorter: "until_closing s = Some (body, rest) \<Longrightarrow> length rest < length s"
    for s body rest
  proof (induction s arbitrary: body)
    case Nil
    then show ?case by simp
  next
    case (Cons c cs)
    then show ?case by (auto split: if_splits option.splits)
  qed
  have match_here_shorter: "match_here pat s = Some (body, rest) \<Longrightarrow> length rest < length s"
    for pat s body rest
    by (auto simp: match_here_def split: option.splits dest!: until_closing_shorter)
  show ?thesis
    by (relation "measure (\<lambda>(opening, s). length s)") (auto dest: match_here_shorter)
qed

text \<open>The text put between the blocks.\<close>

definition block_separator :: string where
  "block_separator = [NL, NL] @ ''# Scribe: Concatenated Block'' @ [NL, NL]"

text \<open>\<^verbatim>\<open>LLMClient._extract_code_from_response\<close>.\<close>

definition extract_code_from_response :: "string \<Rightarrow> string" where
  "extract_code_from_response llm_resp =
     (let py_blocks = findall python_opening llm_resp in
      if py_blocks \<noteq> [] then strip (py_join block_separator (map strip py_blocks))
      else (case findall generic_opening llm_resp of
              b # bs \<Rightarrow> strip b
            | [] \<Rightarrow> strip llm_resp))"


subsection \<open>Calling the inference backend\<close>

text \<open>
  The HTTP library that the import block at the top of the module found. The block tries
  \<^verbatim>\<open>import httpx\<close> and, only when that fails, \<^verbatim>\<open>import requests\<close>. \<^verbatim>\<open>HTTP_LIB\<close> is the
  library found, or \<^verbatim>\<open>None\<close>, and \<^verbatim>\<open>HTTP_LIB_AVAILABLE\<close> is true when there is one.
\<close>

datatype http_library = Httpx | Requests

text \<open>
  Whether the module binds the global name of a library: the name \<^verbatim>\<open>httpx\<close> is bound
  exactly when \<^verbatim>\<open>HTTP_LIB\<close> is \<^verbatim>\<open>"httpx"\<close>, and the name \<^verbatim>\<open>requests\<close> exactly when it is
  \<^verbatim>\<open>"requests"\<close>, because \<^verbatim>\<open>import requests\<close> runs only after \<^verbatim>\<open>import httpx\<close> has failed.
\<close>

definition name_bound :: "http_library option \<Rightarrow> http_library \<Rightarrow> bool" where
  "name_bound http_lib library = (http_lib = Some library)"

text \<open>
  The exceptions that the \<^verbatim>\<open>try\<close> block of \<^verbatim>\<open>_call_api\<close> can raise, each with its
  text: a network failure or timeout (\<^verbatim>\<open>httpx.RequestError\<close>,
  \<^verbatim>\<open>requests.exceptions.RequestException\<close>), \<^verbatim>\<open>json.JSONDecodeError\<close>, a
  \<^verbatim>\<open>ScribeApiError\<close> raised in the block itself, and any other \<^verbatim>\<open>Exception\<close>.
\<close>

datatype exc =
  RequestError string
| JSONDecodeError string
| ApiErrorInTry string
| OtherException string

text \<open>
  What leaves \<^verbatim>\<open>_call_api\<close> as an exception: a \<^verbatim>\<open>ScribeApiError\<close> with its message and its
  cause, or the \<^verbatim>\<open>NameError\<close> of a global name that is not bound.
\<close>

datatype call_exception = ScribeApiError string "exc option" | NameError string

text \<open>The message of the \<^verbatim>\<open>NameError\<close> for a global name.\<close>

definition not_defined :: "string \<Rightarrow> string" where
  "not_defined global_name = ''name '' @ [SQ] @ global_name @ [SQ] @ '' is not defined''"

text \<open>The two keys of the decoded response that are looked at.\<close>

record json_resp =
  error_field :: "string option"
  response_field :: "string option"

text \<open>The request body.\<close>

record payload =
  model :: string
  prompt :: string
  stream :: bool
  format :: "string option"

text \<open>
  What one \<^verbatim>\<open>post\<close> with \<^verbatim>\<open>raise_for_status\<close> and \<^verbatim>\<open>resp.json()\<close> gives: an exception
  or the decoded response.
\<close>

datatype post_result = Raises exc | Json json_resp

text \<open>
  What is observed of a call: the number of attempts (iterations of the loop) and the
  arguments of the calls of \<^verbatim>\<open>time.sleep\<close>.
\<close>

record 't api_trace =
  attempts :: nat
  sleeps :: "'t list"

text \<open>\<^verbatim>\<open>str(last_exc)\<close>.\<close>

fun str_exc :: "exc option \<Rightarrow> string" where
  "str_exc None = ''None''"
| "str_exc (Some (RequestError m)) = m"
| "str_exc (Some (JSONDecodeError m)) = m"
| "str_exc (Some (ApiErrorInTry m)) = m"
| "str_exc (Some (OtherException m)) = m"

text \<open>The \<^verbatim>\<open>raise\<close> after the loop.\<close>

definition failed_definitively :: "exc option \<Rightarrow> call_exception" where
  "failed_definitively last_exc =
     ScribeApiError (''Ollama call failed definitively: '' @ str_exc last_exc) last_exc"

text \<open>
  The body of the \<^verbatim>\<open>try\<close> block for attempt number \<open>attempt\<close>. \<open>http_client\<close> tells whether
  \<^verbatim>\<open>self._http_client\<close> is set (the constructor sets it when \<^verbatim>\<open>HTTP_LIB\<close> is \<^verbatim>\<open>"httpx"\<close> and
  the client could be built); \<open>post\<close> is the post itself, through the client or through
  \<^verbatim>\<open>requests.post\<close>, followed by \<^verbatim>\<open>raise_for_status\<close> and \<^verbatim>\<open>resp.json()\<close>.
\<close>

definition try_post ::
  "http_library option \<Rightarrow> bool \<Rightarrow> (nat \<Rightarrow> post_result) \<Rightarrow> nat \<Rightarrow> exc + json_resp" where
  "try_post http_lib http_client post attempt =
     (if http_client \<or> http_lib = Some Requests then
        (case post attempt of
           Raises e \<Rightarrow> Inl e
         | Json json \<Rightarrow>
             (case error_field json of
                Some (c # cs) \<Rightarrow> Inl (ApiErrorInTry (''Ollama API Error: '' @ c # cs))
              | _ \<Rightarrow>
                  if response_field json = None
                  then Inl (ApiErrorInTry (''Ollama response missing '' @ [SQ] @ ''response'' @ [SQ] @ ''.''))
                  else Inr json))
      else Inl (ApiErrorInTry ''No HTTP client initialized.''))"

text \<open>
  The first handler of the \<^verbatim>\<open>try\<close> block is
  \<^verbatim>\<open>except (httpx.RequestError, requests.exceptions.RequestException)\<close>. When an exception
  of the block reaches it, Python evaluates the tuple from left to right, and a global name
  that is not bound raises \<^verbatim>\<open>NameError\<close>; an exception raised there is not handled by the
  other handlers of the same \<^verbatim>\<open>try\<close>. \<open>Inl\<close> is the message of that \<^verbatim>\<open>NameError\<close>, \<open>Inr\<close>
  stands for the tuple of the two classes.
\<close>

definition network_error_classes :: "http_library option \<Rightarrow> string + unit" where
  "network_error_classes http_lib =
     (if name_bound http_lib Httpx then
        (if name_bound http_lib Requests then Inr () else Inl (not_defined ''requests''))
      else Inl (not_defined ''httpx''))"

text \<open>
  The loop \<^verbatim>\<open>for attempt in range(self._retries+1)\<close> with the \<^verbatim>\<open>raise\<close> after it:
  \<open>attempt\<close> is the loop variable and \<open>remaining\<close> the number of iterations left. An
  exception of the \<^verbatim>\<open>try\<close> block goes to the handlers in their order: the tuple of the
  first is evaluated, then a network failure is kept as \<^verbatim>\<open>last_exc\<close> and the loop goes on
  (after a sleep, unless this was the last attempt), and any other exception ends the loop.
\<close>

fun api_loop ::
  "http_library option \<Rightarrow> (nat \<Rightarrow> exc + json_resp) \<Rightarrow> int \<Rightarrow> 't \<Rightarrow> nat \<Rightarrow> nat \<Rightarrow> exc option
     \<Rightarrow> 't api_trace \<Rightarrow> (call_exception + json_resp) \<times> 't api_trace" where
  "api_loop http_lib try_once retries retry_delay attempt 0 last_exc tr =
     (Inl (failed_definitively last_exc), tr)"
| "api_loop http_lib try_once retries retry_delay attempt (Suc remaining) last_exc tr =
     (let tr1 = tr\<lparr>attempts := attempts tr + 1\<rparr> in
      case try_once attempt of
        Inr json \<Rightarrow> (Inr json, tr1)
      | Inl e \<Rightarrow>
          (case network_error_classes http_lib of
             Inl message \<Rightarrow> (Inl (NameError message), tr1)
           | Inr classes \<Rightarrow>
               (case e of
                  RequestError m \<Rightarrow>
                    api_loop http_lib try_once retries retry_delay (attempt + 1) remaining (Some e)
                      (if int attempt < retries then tr1\<lparr>sleeps := sleeps tr1 @ [retry_delay]\<rparr>
                       else tr1)
                | JSONDecodeError m \<Rightarrow> (Inl (failed_definitively (Some e)), tr1)
                | ApiErrorInTry m \<Rightarrow> (Inl (failed_definitively (Some e)), tr1)
                | OtherException m \<Rightarrow> (Inl (failed_definitively (Some e)), tr1))))"

text \<open>The payload that \<^verbatim>\<open>_call_api\<close> posts: the format is put in only when it is given and not empty.\<close>

definition request_body :: "string \<Rightarrow> string \<Rightarrow> string option \<Rightarrow> payload" where
  "request_body model_name prompt_text fmt =
     \<lparr>model = model_name, prompt = prompt_text, stream = False,
      format = (case fmt of Some (c # cs) \<Rightarrow> fmt | _ \<Rightarrow> None)\<rparr>"

text \<open>
  \<^verbatim>\<open>LLMClient._call_api\<close>. \<open>http_lib\<close> is \<^verbatim>\<open>HTTP_LIB\<close>, and \<open>backend\<close> is the inference
  backend: what the post of a payload gives at each attempt.
\<close>

definition call_api ::
  "http_library option \<Rightarrow> bool \<Rightarrow> string \<Rightarrow> int \<Rightarrow> 't \<Rightarrow> (payload \<Rightarrow> nat \<Rightarrow> post_result) \<Rightarrow> string
     \<Rightarrow> string option \<Rightarrow> (call_exception + json_resp) \<times> 't api_trace" where
  "call_api http_lib http_client model_name retries retry_delay backend prompt_text fmt =
     (if http_lib = None then
        (Inl (ScribeApiError ''No HTTP lib for Ollama.'' None), \<lparr>attempts = 0, sleeps = []\<rparr>)
      else
        api_loop http_lib (try_post http_lib http_client (backend (request_body model_name prompt_text fmt)))
          retries retry_delay 0 (nat (retries + 1)) None \<lparr>attempts = 0, sleeps = []\<rparr>)"

subsection \<open>Test generation and review\<close>

text \<open>\<^verbatim>\<open>text[:n] + ("..." if len(text) > n else "")\<close>.\<close>

definition truncate_for_prompt :: "nat \<Rightarrow> string \<Rightarrow> string" where
  "truncate_for_prompt n s = take n s @ (if length s > n then ''...'' else [])"

text \<open>
  What \<^verbatim>\<open>ast.parse\<close> does with a text: it returns a tree, raises \<^verbatim>\<open>SyntaxError\<close>, or
  raises another exception.
\<close>

datatype parse_outcome = Parsed | RaisesSyntaxError string | RaisesOtherError string

datatype scribe_configuration_error = ScribeConfigurationError string

text \<open>
  \<^verbatim>\<open>LLMClient.generate_tests\<close>. \<open>format_template\<close> is \<^verbatim>\<open>template.format\<close> on the
  configured template with the three named arguments (\<open>Inl\<close> the key of a \<^verbatim>\<open>KeyError\<close>),
  \<open>call\<close> is \<^verbatim>\<open>self._call_api\<close> on a prompt, \<open>ast_parse\<close> is Python's parser.
\<close>

definition llm_generate_tests ::
  "(string \<Rightarrow> string \<Rightarrow> string \<Rightarrow> string + string) \<Rightarrow> (string \<Rightarrow> call_exception + json_resp)
     \<Rightarrow> (string \<Rightarrow> parse_outcome) \<Rightarrow> string \<Rightarrow> string \<Rightarrow> string
     \<Rightarrow> scribe_configuration_error + string option" where
  "llm_generate_tests format_template call ast_parse code file_name sigs =
     (case format_template (truncate_for_prompt 7000 code) file_name (truncate_for_prompt 1000 sigs) of
        Inl missing \<Rightarrow> Inl (ScribeConfigurationError (''Invalid test_gen_prompt: missing '' @ missing))
      | Inr prompt_text \<Rightarrow>
          Inr (case call prompt_text of
                 Inl e \<Rightarrow> None
               | Inr api_resp \<Rightarrow>
                   (let raw_text = (case response_field api_resp of None \<Rightarrow> [] | Some t \<Rightarrow> t) in
                    if strip raw_text = [] then None
                    else (let extracted = extract_code_from_response raw_text in
                          if extracted = [] then None
                          else (case ast_parse extracted of
                                  Parsed \<Rightarrow> Some extracted
                                | RaisesSyntaxError m \<Rightarrow> None
                                | RaisesOtherError m \<Rightarrow> None)))))"

text \<open>
  \<^verbatim>\<open>LLMClient.generate_review\<close>. Its call \<^verbatim>\<open>self._call_api(prompt, output_format_type="json")\<close>
  names a parameter that \<^verbatim>\<open>_call_api(self, prompt, fmt=None)\<close> does not have, so the call
  raises \<^verbatim>\<open>TypeError\<close> before the backend is reached; the handler for \<^verbatim>\<open>Exception\<close> around
  it returns \<^verbatim>\<open>None\<close>.
\<close>

definition llm_generate_review ::
  "(string \<Rightarrow> string \<Rightarrow> string + string) \<Rightarrow> string \<Rightarrow> string
     \<Rightarrow> scribe_configuration_error + (string \<times> string) list list option" where
  "llm_generate_review format_template code file_name =
     (case format_template (truncate_for_prompt 8000 code) file_name of
        Inl missing \<Rightarrow> Inl (ScribeConfigurationError (''Invalid review_prompt: missing '' @ missing))
      | Inr prompt_text \<Rightarrow> Inr None)"

section \<open>The workflow steps\<close>

text \<open>\<^verbatim>\<open>details.get(key, default)\<close>.\<close>

definition dict_get :: "details \<Rightarrow> string \<Rightarrow> pyval \<Rightarrow> pyval" where
  "dict_get d key dflt = (case map_of d key of None \<Rightarrow> dflt | Some v \<Rightarrow> v)"

text \<open>Python's truth value of a value.\<close>

fun truthy :: "pyval \<Rightarrow> bool" where
  "truthy PyNone = False"
| "truthy (PyStr s) = (s \<noteq> [])"
| "truthy (PyInt i) = (i \<noteq> 0)"
| "truthy (PyFindings fs) = (fs \<noteq> [])"

text \<open>
  The \<^verbatim>\<open>return\<close> of \<^verbatim>\<open>WorkflowSteps.generate_tests\<close>, from what the LLM client returned.
\<close>

definition generate_tests_result :: "string option \<Rightarrow> status \<times> details" where
  "generate_tests_result tests =
     (case tests of
        Some (c # cs) \<Rightarrow>
          (STATUS_SUCCESS, [(''raw_output'', PyStr (c # cs)), (''message'', PyStr ''Tests AI-generated.'')])
      | Some [] \<Rightarrow>
          (STATUS_FAILURE, [(''raw_output'', PyStr []), (''message'', PyStr ''Test gen failed.'')])
      | None \<Rightarrow>
          (STATUS_FAILURE, [(''raw_output'', PyNone), (''message'', PyStr ''Test gen failed.'')]))"

text \<open>
  \<^verbatim>\<open>WorkflowSteps.generate_tests\<close>: \<open>target\<close> is the name and the text of the target
  file, \<open>llm\<close> is \<^verbatim>\<open>self.agent._llm_client.generate_tests\<close>, and \<open>signatures_of\<close> is
  \<^verbatim>\<open>sig_details.get("raw_output","") if sig_details else ""\<close>.
\<close>

definition signatures_of :: "details option \<Rightarrow> string" where
  "signatures_of sig_details =
     (case sig_details of
        None \<Rightarrow> []
      | Some d \<Rightarrow> (case dict_get d ''raw_output'' (PyStr []) of PyStr s \<Rightarrow> s | _ \<Rightarrow> []))"

definition generate_tests ::
  "(string \<Rightarrow> string \<Rightarrow> string \<Rightarrow> scribe_configuration_error + string option) \<Rightarrow> string \<times> string
     \<Rightarrow> details option \<Rightarrow> step_outcome" where
  "generate_tests llm target sig_details =
     (case llm (snd target) (fst target) (signatures_of sig_details) of
        Inl (ScribeConfigurationError msg) \<Rightarrow> RaisedScribeError msg []
      | Inr tests \<Rightarrow> (case generate_tests_result tests of (st, d) \<Rightarrow> Returned st d))"

text \<open>
  The \<^verbatim>\<open>return\<close> of \<^verbatim>\<open>WorkflowSteps.review_code\<close>, from what the LLM client returned.
\<close>

definition review_code_result :: "(string \<times> string) list list option \<Rightarrow> status \<times> details" where
  "review_code_result review =
     (let found = (case review of None \<Rightarrow> [] | Some fs \<Rightarrow> fs) in
      (STATUS_ADVISORY,
       [(''issues_found'', PyFindings found),
        (''message'', PyStr (''AI review found '' @ str_nat (length found) @ '' items.''))]))"

text \<open>\<^verbatim>\<open>WorkflowSteps.review_code\<close>.\<close>

definition review_code ::
  "(string \<Rightarrow> string \<Rightarrow> scribe_configuration_error + (string \<times> string) list list option)
     \<Rightarrow> string \<times> string \<Rightarrow> step_outcome" where
  "review_code llm target =
     (case llm (snd target) (fst target) of
        Inl (ScribeConfigurationError msg) \<Rightarrow> RaisedScribeError msg []
      | Inr review \<Rightarrow> (case review_code_result review of (st, d) \<Rightarrow> Returned st d))"

text \<open>\<^verbatim>\<open>str.isalnum\<close> on the code points below 256.\<close>

definition py_isalnum :: "char \<Rightarrow> bool" where
  "py_isalnum c =
     (let n = (of_char c :: nat)
      in (48 \<le> n \<and> n \<le> 57) \<or> (65 \<le> n \<and> n \<le> 90) \<or> (97 \<le> n \<and> n \<le> 122)
         \<or> n \<in> {170, 178, 179, 181, 185, 186, 188, 189, 190}
         \<or> (192 \<le> n \<and> n \<le> 214) \<or> (216 \<le> n \<and> n \<le> 246) \<or> 248 \<le> n)"

definition SCRIBE_TEST_DIR :: string where
  "SCRIBE_TEST_DIR = ''tests/scribe_generated''"

text \<open>The path of the generated test file, from the target directory and the stem of the target file.\<close>

definition test_file_path :: "string \<Rightarrow> string \<Rightarrow> string" where
  "test_file_path target_dir stem =
     target_dir @ ''/'' @ SCRIBE_TEST_DIR @ ''/test_''
       @ map (\<lambda>c. if py_isalnum c then c else CHR ''_'') stem @ ''_scribe.py''"

text \<open>
  \<^verbatim>\<open>WorkflowSteps.save_tests\<close> on the files of the project (path to text): the outcome
  and the files afterwards. A value under \<^verbatim>\<open>raw_output\<close> that is true and no string makes
  \<^verbatim>\<open>write_text\<close> raise \<^verbatim>\<open>TypeError\<close>. Failures of the operating system while writing
  are left out.
\<close>

definition save_tests ::
  "string \<Rightarrow> string \<Rightarrow> details option \<Rightarrow> (string \<Rightarrow> string option) \<Rightarrow> step_outcome \<times> (string \<Rightarrow> string option)" where
  "save_tests target_dir stem gen_tests_details project_files =
     (let code = (case gen_tests_details of
                    Some (e # es) \<Rightarrow> dict_get (e # es) ''raw_output'' (PyStr [])
                  | _ \<Rightarrow> PyStr [])
      in if \<not> truthy code then
           (Returned STATUS_WARNING [(''message'', PyStr ''No test code to save.'')], project_files)
         else
           (case code of
              PyStr text \<Rightarrow>
                (let path = test_file_path target_dir stem in
                 (Returned STATUS_SUCCESS
                    [(''generated_content_path'', PyStr path), (''raw_output'', PyStr path)],
                  project_files(path \<mapsto> text)))
            | _ \<Rightarrow>
                (RaisedException ''TypeError'' ''data must be str'' [], project_files)))"

section \<open>The orchestrator\<close>

subsection \<open>Command line flags and the effective commit intent\<close>

text \<open>
  The end of \<^verbatim>\<open>_parse_arguments\<close>: \<^verbatim>\<open>parsed_args.commit\<close> from the two flags of the
  mutually exclusive group.
\<close>

definition resolve_commit :: "bool \<Rightarrow> bool \<Rightarrow> bool" where
  "resolve_commit commit_explicitly_true commit_explicitly_false =
     (if commit_explicitly_true then True
      else if commit_explicitly_false then False
      else True)"

text \<open>The start of \<^verbatim>\<open>ScribeAgent.__init__\<close>: \<^verbatim>\<open>self._do_commit\<close>.\<close>

definition effective_commit :: "bool \<Rightarrow> bool \<Rightarrow> bool \<Rightarrow> bool" where
  "effective_commit review_only_flag no_commit_flag commit_flag =
     (if review_only_flag then False
      else if no_commit_flag then False
      else commit_flag)"

text \<open>
  The agent as \<^verbatim>\<open>__init__\<close> leaves it when it does not exit: the flags, the collaborators,
  \<^verbatim>\<open>_overall_success = True\<close> and the report of \<^verbatim>\<open>_initialize_report\<close>.
\<close>

definition init_agent ::
  "bool \<Rightarrow> bool \<Rightarrow> bool \<Rightarrow> bool \<Rightarrow> 'w workflow \<Rightarrow> string list \<Rightarrow> 'w \<Rightarrow> 'w agent" where
  "init_agent review_only_flag no_commit_flag commit_explicitly_true commit_explicitly_false wflow vs w =
     (let dc = effective_commit review_only_flag no_commit_flag
                 (resolve_commit commit_explicitly_true commit_explicitly_false)
      in \<lparr> review_only = review_only_flag, no_commit = no_commit_flag, do_commit = dc,
           workflow = Some wflow, validation_steps = vs, overall_success = True, steps = [],
           overall_status = STATUS_PENDING, commit_attempted = dc, world = w, invoked = [] \<rparr>)"

subsection \<open>Recording step results\<close>

text \<open>\<^verbatim>\<open>_add_step_result_custom\<close>.\<close>

definition add_step_result_custom ::
  "string \<Rightarrow> status \<Rightarrow> details \<Rightarrow> string option \<Rightarrow> 'w agent \<Rightarrow> 'w agent" where
  "add_step_result_custom nm st d em a =
     a\<lparr>steps := steps a @ [\<lparr>name = nm, status = st, details = Some d, error_message = em\<rparr>]\<rparr>"

text \<open>\<^verbatim>\<open>_add_step_result\<close>.\<close>

definition add_step_result :: "step_result \<Rightarrow> 'w agent \<Rightarrow> 'w agent" where
  "add_step_result r a = a\<lparr>steps := steps a @ [r]\<rparr>"

text \<open>Python's truth value of the dependency argument: \<open>None\<close> and the empty dict are false.\<close>

fun truthy_details :: "details option \<Rightarrow> bool" where
  "truthy_details None = False"
| "truthy_details (Some d) = (d \<noteq> [])"

text \<open>
  \<^verbatim>\<open>_execute_step\<close>: the result is the returned flag, the agent and the dictionary
  \<^verbatim>\<open>step_outputs\<close>.
\<close>

definition execute_step ::
  "string \<Rightarrow> 'w step_func \<Rightarrow> (string \<Rightarrow> step_result option) \<Rightarrow> details option \<Rightarrow> 'w agent
     \<Rightarrow> bool \<times> 'w agent \<times> (string \<Rightarrow> step_result option)" where
  "execute_step nm step_fn step_outputs dependency a =
     (if \<not> overall_success a \<and> nm \<noteq> ''generate_report'' then
        (True,
         add_step_result
           \<lparr>name = nm, status = STATUS_SKIPPED,
            details = Some [(''message'', PyStr ''Skipped due to prior failure.'')],
            error_message = None\<rparr> a,
         step_outputs)
      else
        (case step_fn (if truthy_details dependency then dependency else None) (world a) of
           (outcome, w') \<Rightarrow>
             (let a1 = a\<lparr>world := w', invoked := invoked a @ [nm]\<rparr> in
              case outcome of
                Returned st payload \<Rightarrow>
                  (let r = \<lparr>name = nm, status = st, details = Some payload, error_message = None\<rparr>;
                       a2 = (if st = STATUS_FAILURE then a1\<lparr>overall_success := False\<rparr> else a1)
                   in (st \<noteq> STATUS_FAILURE, add_step_result r a2, step_outputs(nm \<mapsto> r)))
              | RaisedScribeError msg d \<Rightarrow>
                  (False,
                   add_step_result
                     \<lparr>name = nm, status = STATUS_FAILURE, details = Some d, error_message = Some msg\<rparr>
                     (a1\<lparr>overall_success := False\<rparr>),
                   step_outputs)
              | RaisedException ty msg tb \<Rightarrow>
                  (False,
                   add_step_result
                     \<lparr>name = nm, status = STATUS_FAILURE,
                      details = Some [(''traceback'', PyStr tb)],
                      error_message = Some (''Unexpected: '' @ ty @ '' - '' @ msg)\<rparr>
                     (a1\<lparr>overall_success := False\<rparr>),
                   step_outputs))))"

subsection \<open>The loop of run\<close>

text \<open>\<^verbatim>\<open>step_outputs.get(key, {}).get('details')\<close>.\<close>

definition dependency_of :: "(string \<Rightarrow> step_result option) \<Rightarrow> string \<Rightarrow> details option" where
  "dependency_of step_outputs key =
     (case step_outputs key of None \<Rightarrow> None | Some r \<Rightarrow> details r)"

definition dependency_arg :: "(string \<Rightarrow> step_result option) \<Rightarrow> string \<Rightarrow> details option" where
  "dependency_arg step_outputs step_name =
     (if step_name = ''generate_tests'' then dependency_of step_outputs ''extract_signatures''
      else if step_name = ''save_tests'' then dependency_of step_outputs ''generate_tests''
      else if step_name = ''execute_tests'' then dependency_of step_outputs ''save_tests''
      else None)"

text \<open>The reason given when \<^verbatim>\<open>commit_changes\<close> is skipped.\<close>

definition skip_reason :: "'w agent \<Rightarrow> string" where
  "skip_reason a =
     (if review_only a then ''--review-only active''
      else if no_commit a then ''--no-commit active''
      else ''Commit not planned'')"

text \<open>
  The \<^verbatim>\<open>for step_name in validation_steps\<close> loop: the recursion is the next iteration
  (also after \<^verbatim>\<open>continue\<close>), returning without recursion is \<^verbatim>\<open>break\<close>.
\<close>

fun run_loop :: "string list \<Rightarrow> (string \<Rightarrow> step_result option) \<Rightarrow> 'w agent \<Rightarrow> 'w agent" where
  "run_loop [] step_outputs a = a"
| "run_loop (step_name # rest) step_outputs a =
     (case workflow a of
        None \<Rightarrow>
          add_step_result_custom step_name STATUS_FAILURE
            [(''message'', PyStr ''Workflow not initialized'')] None
            (a\<lparr>overall_success := False\<rparr>)
      | Some wflow \<Rightarrow>
          (case wflow step_name of
             None \<Rightarrow>
               add_step_result_custom step_name STATUS_FAILURE
                 [(''message'', PyStr (''Invalid step '' @ [CHR 0x27] @ step_name @ [CHR 0x27] @ '' in configuration.''))]
                 (Some (''Invalid step '' @ [CHR 0x27] @ step_name @ [CHR 0x27]))
                 (a\<lparr>overall_success := False\<rparr>)
           | Some step_fn \<Rightarrow>
               if step_name = ''run_precommit'' \<and> review_only a then
                 run_loop rest step_outputs
                   (add_step_result_custom step_name STATUS_SKIPPED
                      [(''message'', PyStr ''Skipped: --review-only active.'')] None a)
               else if step_name = ''commit_changes'' \<and> \<not> do_commit a then
                 run_loop rest step_outputs
                   ((add_step_result_custom step_name STATUS_SKIPPED
                       [(''message'', PyStr (''Skipped: '' @ skip_reason a @ ''.''))] None a)
                    \<lparr>commit_attempted := False\<rparr>)
               else
                 (case execute_step step_name step_fn step_outputs
                         (dependency_arg step_outputs step_name) a of
                    (ok, a', step_outputs') \<Rightarrow>
                      if \<not> ok then a'
                      else if step_name = ''review_code'' \<and> review_only a' then
                        (if status (last (steps a')) \<noteq> STATUS_FAILURE then a'
                         else a'\<lparr>overall_success := False\<rparr>)
                      else run_loop rest step_outputs' a')))"

text \<open>
  \<^verbatim>\<open>_generate_and_print_final_report\<close>: the report is always present after
  \<^verbatim>\<open>__init__\<close>, so the minimal error report is not reached from \<^verbatim>\<open>run\<close>.
\<close>

definition generate_and_print_final_report :: "'w agent \<Rightarrow> 'w agent" where
  "generate_and_print_final_report a =
     a\<lparr>overall_status := (if overall_success a then STATUS_SUCCESS else STATUS_FAILURE),
       commit_attempted := (do_commit a \<and> ''commit_changes'' \<in> set (validation_steps a))\<rparr>"

text \<open>\<^verbatim>\<open>run\<close>: the finished agent (with the report) and the argument of \<^verbatim>\<open>sys.exit\<close>.\<close>

definition run :: "'w agent \<Rightarrow> 'w agent \<times> int" where
  "run a =
     (if validation_steps a = [] then
        (generate_and_print_final_report
           (add_step_result_custom ''pipeline_setup'' STATUS_FAILURE
              [(''message'', PyStr ''Critical: Validation steps not configured in ScribeConfig.'')]
              (Some ''Validation steps missing.'')
              (a\<lparr>overall_success := False\<rparr>)),
         1)
      else
        (let a' = generate_and_print_final_report (run_loop (validation_steps a) Map.empty a)
         in (a', if overall_success a' then 0 else 1)))"

subsection \<open>The steps used in the examples\<close>

text \<open>\<^verbatim>\<open>WorkflowSteps.generate_report\<close>.\<close>

definition generate_report :: "'w step_func" where
  "generate_report dep w =
     (Returned STATUS_SUCCESS
        [(''message'', PyStr ''Final report data prepared.''),
         (''raw_output'', PyStr ''Report generation triggered.'')], w)"

text \<open>A workflow object that only has \<^verbatim>\<open>generate_report\<close>, and an agent configured to run it.\<close>

definition report_workflow :: "unit workflow" where
  "report_workflow nm = (if nm = ''generate_report'' then Some generate_report else None)"

definition report_only_agent :: "unit agent" where
  "report_only_agent = init_agent False False False False report_workflow [''generate_report''] ()"

subsection \<open>Example backends, tools and environments\<close>

text \<open>
  A backend on which every post times out, one whose responses are no JSON, and one that
  times out once and answers from the second post on.
\<close>

definition timeout_backend :: "payload \<Rightarrow> nat \<Rightarrow> post_result" where
  "timeout_backend body attempt = Raises (RequestError ''timed out'')"

definition garbled_backend :: "payload \<Rightarrow> nat \<Rightarrow> post_result" where
  "garbled_backend body attempt = Raises (JSONDecodeError ''Expecting value'')"

definition slow_backend :: "payload \<Rightarrow> nat \<Rightarrow> post_result" where
  "slow_backend body attempt =
     (if attempt = 0 then Raises (RequestError ''timed out'')
      else Json \<lparr>error_field = None, response_field = Some ''ok''\<rparr>)"

text \<open>A backend that answers the first post.\<close>

definition prompt_backend :: "payload \<Rightarrow> nat \<Rightarrow> post_result" where
  "prompt_backend body attempt = Json \<lparr>error_field = None, response_field = Some ''ok''\<rparr>"

text \<open>A resolver that finds \<^verbatim>\<open>ruff\<close> on the search path and nothing else.\<close>

definition ruff_resolver :: resolver where
  "ruff_resolver =
     \<lparr>tool_paths = (\<lambda>n. None), executable_file = (\<lambda>p. False), venv_bin_dir = None,
      which = (\<lambda>n. if n = ''ruff'' then Some ''/usr/bin/ruff'' else None)\<rparr>"

text \<open>Three behaviours of the operating system: exit code 2, a timeout, a refusal to start.\<close>

definition exits_with_2 :: "string list \<Rightarrow> subprocess_outcome" where
  "exits_with_2 cmd = Completed 2 [] ''error: invalid file''"



text \<open>
  A target directory without an environment, a creation command that succeeds and leaves a
  complete environment, and an upgrade that fails.
\<close>

definition fresh_manager :: env_manager where
  "fresh_manager =
     \<lparr>files = \<lparr>venv_kind = Missing, python_is_executable = False, pip_is_executable = False\<rparr>,
      venv_python_path = None, pip_path = None, creations = 0, upgrades = 0\<rparr>"

definition venv_created :: "venv_files \<Rightarrow> (scribe_tool_error + completed_process) \<times> venv_files" where
  "venv_created fs =
     (Inr \<lparr>args = [''python'', ''-m'', ''venv'', ''.venv''], returncode = 0, stdout = [], stderr = []\<rparr>,
      \<lparr>venv_kind = Directory, python_is_executable = True, pip_is_executable = True\<rparr>)"

definition upgrade_fails :: "venv_files \<Rightarrow> scribe_tool_error + completed_process" where
  "upgrade_fails fs = Inr \<lparr>args = [''pip''], returncode = 1, stdout = [], stderr = ''no network''\<rparr>"




definition one_block_response :: string where
  "one_block_response = fence @ ''Python'' @ [NL] @ ''  import pytest  '' @ [NL] @ fence"

definition unfenced_response :: string where
  "unfenced_response = ''x = 1'' @ [NL]"

text \<open>A prompt template without placeholders, a backend reply with one python block, and a
  parser that accepts one text only.\<close>

definition plain_test_prompt :: "string \<Rightarrow> string \<Rightarrow> string \<Rightarrow> string + string" where
  "plain_test_prompt code file_name sigs = Inr (''Write tests for '' @ file_name)"

definition plain_review_prompt :: "string \<Rightarrow> string \<Rightarrow> string + string" where
  "plain_review_prompt code file_name = Inr (''Review '' @ file_name)"

definition replies_with :: "string \<Rightarrow> string \<Rightarrow> call_exception + json_resp" where
  "replies_with reply prompt_text = Inr \<lparr>error_field = None, response_field = Some reply\<rparr>"

definition accepts_only :: "string \<Rightarrow> string \<Rightarrow> parse_outcome" where
  "accepts_only good source = (if source = good then Parsed else RaisesSyntaxError ''invalid syntax'')"

text \<open>
  \<^verbatim>\<open>WorkflowSteps.format_code\<close>: \<open>tool\<close> is \<^verbatim>\<open>run_tool\<close> in the target directory with the
  virtual environment.
\<close>

definition format_code :: "(string list \<Rightarrow> scribe_tool_error + completed_process) \<Rightarrow> string \<Rightarrow> step_outcome" where
  "format_code tool target_file =
     (case tool [''ruff'', ''format'', target_file] of
        Inl (ScribeToolError msg) \<Rightarrow> RaisedScribeError msg []
      | Inr res \<Rightarrow>
          if returncode res = 0 then
            Returned STATUS_SUCCESS
              [(''tool_name'', PyStr ''ruff (format)''), (''return_code'', PyInt (returncode res)),
               (''message'', PyStr ''Formatted.'')]
          else
            RaisedScribeError
              (''Ruff format fail RC='' @ str_int (returncode res) @ ''. E: '' @ strip (stderr res)) [])"

text \<open>
  A step method that returns SUCCESS whenever it is called: it stands for the step methods
  on whose behaviour an example does not depend.
\<close>

definition always_succeeds :: "'w step_func" where
  "always_succeeds dep w = (Returned STATUS_SUCCESS [], w)"

text \<open>
  A workflow object for the examples: \<^verbatim>\<open>ruff format\<close> exits with code 2, the review is the
  one of the LLM client, the report step is the program's.
\<close>

definition example_workflow :: "unit workflow" where
  "example_workflow nm =
     (if nm = ''format_code'' then
        Some (\<lambda>dep w. (format_code (run_tool ruff_resolver id ''180.0'' exits_with_2) ''src/main.py'', w))
      else if nm = ''review_code'' then
        Some (\<lambda>dep w. (review_code (llm_generate_review plain_review_prompt) (''main.py'', ''x = 1''), w))
      else if nm = ''generate_report'' then Some generate_report
      else if nm = ''lint_code'' \<or> nm = ''run_precommit'' \<or> nm = ''commit_changes'' then Some always_succeeds
      else None)"

text \<open>The name and the status of a recorded step.\<close>

definition step_summary :: "step_result \<Rightarrow> string \<times> status" where
  "step_summary r = (name r, status r)"

subsection \<open>Predicates on the agent\<close>

text \<open>The success flag says whether a failure is recorded.\<close>

definition success_flag_ok :: "'w agent \<Rightarrow> bool" where
  "success_flag_ok a = (overall_success a = (\<forall>r \<in> set (steps a). status r \<noteq> STATUS_FAILURE))"


text \<open>
  While the loop runs, the success flag is set and no failure is recorded; when it has
  ended, a recorded failure can only be the last entry: nothing is recorded after it.
\<close>

definition running :: "'w agent \<Rightarrow> bool" where
  "running a = (overall_success a \<and> (\<forall>r \<in> set (steps a). status r \<noteq> STATUS_FAILURE))"

definition failure_only_last :: "'w agent \<Rightarrow> bool" where
  "failure_only_last a = (\<forall>r \<in> set (butlast (steps a)). status r \<noteq> STATUS_FAILURE)"

section \<open>Properties of the orchestrator\<close>

subsection \<open>One call of a step\<close>

lemma execute_step_appends:
  assumes "execute_step nm f outs dep a = (ok, a', outs')"
  shows "\<exists>r. steps a' = steps a @ [r] \<and> name r = nm \<and> (ok = (status r \<noteq> STATUS_FAILURE))"
  using assms
  by (auto simp: execute_step_def add_step_result_def Let_def
           split: if_splits prod.splits step_outcome.splits)

lemma execute_step_frame:
  assumes "execute_step nm f outs dep a = (ok, a', outs')"
  shows "review_only a' = review_only a \<and> no_commit a' = no_commit a \<and> do_commit a' = do_commit a
         \<and> workflow a' = workflow a \<and> validation_steps a' = validation_steps a"
  using assms
  by (auto simp: execute_step_def add_step_result_def Let_def
           split: if_splits prod.splits step_outcome.splits)


subsection \<open>An invariant rule for the loop\<close>

text \<open>
  A property \<open>Q\<close> holds after the loop when a property \<open>I\<close> holds before it, every way in
  which an iteration goes on to the next keeps \<open>I\<close> (the two flag-driven skips, a call of
  \<open>execute_step\<close> that returns true), and every way out of the loop gives \<open>Q\<close> (the end of the
  list, the two synthetic failures, a call of \<open>execute_step\<close> that returns false, the end
  after the review in review-only mode).
\<close>

lemma run_loop_rule:
  assumes init: "I a"
    and stop: "\<And>a. I a \<Longrightarrow> Q a"
    and fail: "\<And>a nm d em. I a
                 \<Longrightarrow> workflow a = None \<or> (\<exists>wflow. workflow a = Some wflow \<and> wflow nm = None)
                 \<Longrightarrow> Q (add_step_result_custom nm STATUS_FAILURE d em (a\<lparr>overall_success := False\<rparr>))"
    and pre: "\<And>a d. I a \<Longrightarrow> review_only a
                 \<Longrightarrow> I (add_step_result_custom ''run_precommit'' STATUS_SKIPPED d None a)"
    and com: "\<And>a d. I a \<Longrightarrow> \<not> do_commit a
                 \<Longrightarrow> I ((add_step_result_custom ''commit_changes'' STATUS_SKIPPED d None a)
                        \<lparr>commit_attempted := False\<rparr>)"
    and exe: "\<And>a nm f outs dep ok a' outs'. I a
                 \<Longrightarrow> \<not> (nm = ''run_precommit'' \<and> review_only a)
                 \<Longrightarrow> \<not> (nm = ''commit_changes'' \<and> \<not> do_commit a)
                 \<Longrightarrow> execute_step nm f outs dep a = (ok, a', outs')
                 \<Longrightarrow> (if ok then I a' else Q a')"
    and rev: "\<And>a. I a \<Longrightarrow> steps a \<noteq> [] \<Longrightarrow> status (last (steps a)) = STATUS_FAILURE
                 \<Longrightarrow> Q (a\<lparr>overall_success := False\<rparr>)"
  shows "Q (run_loop vs outs a)"
  using init
proof (induction vs arbitrary: outs a)
  case Nil
  then show ?case by (simp add: stop)
next
  case (Cons step_name rest)
  show ?case
  proof (cases "workflow a")
    case None
    then show ?thesis using fail[OF Cons.prems] by simp
  next
    case (Some wflow)
    note wf = this
    show ?thesis
    proof (cases "wflow step_name")
      case None
      then show ?thesis using wf fail[OF Cons.prems] by simp
    next
      case (Some step_fn)
      note sf = this
      show ?thesis
      proof (cases "step_name = ''run_precommit'' \<and> review_only a")
        case True
        then show ?thesis using wf sf Cons.IH[OF pre[OF Cons.prems]] by simp
      next
        case False
        note np = this
        show ?thesis
        proof (cases "step_name = ''commit_changes'' \<and> \<not> do_commit a")
          case True
          then show ?thesis using wf sf np Cons.IH[OF com[OF Cons.prems]] by simp
        next
          case False
          note nc = this
          obtain ok a' outs' where ex:
            "execute_step step_name step_fn outs (dependency_arg outs step_name) a = (ok, a', outs')"
            by (metis prod_cases3)
          have post: "if ok then I a' else Q a'" by (rule exe[OF Cons.prems np nc ex])
          have unfold: "run_loop (step_name # rest) outs a =
                 (if \<not> ok then a'
                  else if step_name = ''review_code'' \<and> review_only a' then
                        (if status (last (steps a')) \<noteq> STATUS_FAILURE then a'
                         else a'\<lparr>overall_success := False\<rparr>)
                  else run_loop rest outs' a')"
          proof -
            have c1: "(step_name = ''run_precommit'' \<and> review_only a) = False" using np by simp
            have c2: "(step_name = ''commit_changes'' \<and> \<not> do_commit a) = False" using nc by simp
            show ?thesis
              by (simp only: run_loop.simps wf sf option.case c1 c2 if_False ex prod.case)
          qed
          have ne: "steps a' \<noteq> []" using execute_step_appends[OF ex] by auto
          show ?thesis
          proof (cases ok)
            case False
            then show ?thesis unfolding unfold using post by simp
          next
            case True
            then have Ia': "I a'" using post by simp
            show ?thesis unfolding unfold
              using True Ia' stop[OF Ia'] rev[OF Ia' ne] Cons.IH[OF Ia'] by simp
          qed
        qed
      qed
    qed
  qed
qed

text \<open>The same rule for a property that holds before, during and after the loop.\<close>

lemma run_loop_invariant:
  assumes init: "I a"
    and fail: "\<And>a nm d em. I a
                 \<Longrightarrow> workflow a = None \<or> (\<exists>wflow. workflow a = Some wflow \<and> wflow nm = None)
                 \<Longrightarrow> I (add_step_result_custom nm STATUS_FAILURE d em (a\<lparr>overall_success := False\<rparr>))"
    and pre: "\<And>a d. I a \<Longrightarrow> review_only a
                 \<Longrightarrow> I (add_step_result_custom ''run_precommit'' STATUS_SKIPPED d None a)"
    and com: "\<And>a d. I a \<Longrightarrow> \<not> do_commit a
                 \<Longrightarrow> I ((add_step_result_custom ''commit_changes'' STATUS_SKIPPED d None a)
                        \<lparr>commit_attempted := False\<rparr>)"
    and exe: "\<And>a nm f outs dep ok a' outs'. I a
                 \<Longrightarrow> \<not> (nm = ''run_precommit'' \<and> review_only a)
                 \<Longrightarrow> \<not> (nm = ''commit_changes'' \<and> \<not> do_commit a)
                 \<Longrightarrow> execute_step nm f outs dep a = (ok, a', outs') \<Longrightarrow> I a'"
    and rev: "\<And>a. I a \<Longrightarrow> steps a \<noteq> [] \<Longrightarrow> status (last (steps a)) = STATUS_FAILURE
                 \<Longrightarrow> I (a\<lparr>overall_success := False\<rparr>)"
  shows "I (run_loop vs outs a)"
proof (rule run_loop_rule[where I = I and Q = I])
  show "I a" by fact
next
  fix a :: "'a agent" and nm f outs dep ok a' outs'
  assume "I a" "\<not> (nm = ''run_precommit'' \<and> review_only a)"
    "\<not> (nm = ''commit_changes'' \<and> \<not> do_commit a)" "execute_step nm f outs dep a = (ok, a', outs')"
  then have "I a'" by (rule exe)
  then show "if ok then I a' else I a'" by simp
qed (fact fail pre com rev | assumption)+

subsection \<open>The success flag and the recorded failures\<close>

lemma execute_step_flag:
  assumes "success_flag_ok a" "execute_step nm f outs dep a = (ok, a', outs')"
  shows "success_flag_ok a'"
  using assms
  by (auto simp: execute_step_def success_flag_ok_def add_step_result_def Let_def
           split: if_splits prod.splits step_outcome.splits)

lemma run_loop_flag:
  assumes "success_flag_ok a"
  shows "success_flag_ok (run_loop vs outs a)"
proof (rule run_loop_invariant[where I = success_flag_ok])
  show "success_flag_ok a" by fact
next
  fix a :: "'a agent" and nm d em
  show "success_flag_ok (add_step_result_custom nm STATUS_FAILURE d em (a\<lparr>overall_success := False\<rparr>))"
    by (simp add: success_flag_ok_def add_step_result_custom_def)
next
  fix a :: "'a agent" and d
  assume "success_flag_ok a"
  then show "success_flag_ok (add_step_result_custom ''run_precommit'' STATUS_SKIPPED d None a)"
    by (simp add: success_flag_ok_def add_step_result_custom_def)
next
  fix a :: "'a agent" and d
  assume "success_flag_ok a"
  then show "success_flag_ok
     ((add_step_result_custom ''commit_changes'' STATUS_SKIPPED d None a)\<lparr>commit_attempted := False\<rparr>)"
    by (simp add: success_flag_ok_def add_step_result_custom_def)
next
  fix a a' :: "'a agent" and nm f outs dep ok outs'
  assume "success_flag_ok a" "execute_step nm f outs dep a = (ok, a', outs')"
  then show "success_flag_ok a'" by (rule execute_step_flag)
next
  fix a :: "'a agent"
  assume "success_flag_ok a" "steps a \<noteq> []" "status (last (steps a)) = STATUS_FAILURE"
  then show "success_flag_ok (a\<lparr>overall_success := False\<rparr>)"
    using last_in_set[of "steps a"] by (auto simp: success_flag_ok_def)
qed

lemma run_loop_do_commit: "do_commit (run_loop vs outs a) = do_commit a"
proof (rule run_loop_invariant[where I = "\<lambda>x. do_commit x = do_commit a"])
  fix b b' :: "'a agent" and nm f outs dep ok outs'
  assume "do_commit b = do_commit a" "execute_step nm f outs dep b = (ok, b', outs')"
  then show "do_commit b' = do_commit a" using execute_step_frame by metis
qed (simp_all add: add_step_result_custom_def)

text \<open>
  C3. From the agent that the constructor leaves (no step recorded, success flag set), the
  overall status of the finished report is SUCCESS exactly when no recorded step has status
  FAILURE, and the exit code is zero exactly when the overall status is SUCCESS; with an
  empty list of configured steps the exit code is not zero (and the overall status is
  FAILURE), whatever the rest of the agent is.
\<close>

theorem overall_status_and_exit_code:
  assumes "steps a = []" and "overall_success a"
  shows "(overall_status (fst (run a)) = STATUS_SUCCESS) =
            (\<forall>r \<in> set (steps (fst (run a))). status r \<noteq> STATUS_FAILURE)
       \<and> (snd (run a) = 0) = (overall_status (fst (run a)) = STATUS_SUCCESS)
       \<and> snd (run (a\<lparr>validation_steps := []\<rparr>)) \<noteq> 0
       \<and> overall_status (fst (run (a\<lparr>validation_steps := []\<rparr>))) = STATUS_FAILURE"
proof -
  have inv: "success_flag_ok a" using assms by (simp add: success_flag_ok_def)
  have empty: "snd (run (a\<lparr>validation_steps := []\<rparr>)) \<noteq> 0
       \<and> overall_status (fst (run (a\<lparr>validation_steps := []\<rparr>))) = STATUS_FAILURE"
    by (simp add: run_def generate_and_print_final_report_def add_step_result_custom_def)
  show ?thesis
  proof (cases "validation_steps a = []")
    case True
    then show ?thesis using empty
      by (simp add: run_def generate_and_print_final_report_def add_step_result_custom_def)
  next
    case False
    have "success_flag_ok (run_loop (validation_steps a) Map.empty a)"
      by (rule run_loop_flag[OF inv])
    then show ?thesis using False empty
      by (simp add: run_def generate_and_print_final_report_def Let_def success_flag_ok_def)
  qed
qed

theorem overall_status_and_exit_code_witness:
  "steps report_only_agent = [] \<and> overall_success report_only_agent
   \<and> overall_status (fst (run report_only_agent)) = STATUS_SUCCESS
   \<and> snd (run report_only_agent) = 0
   \<and> snd (run (report_only_agent\<lparr>validation_steps := []\<rparr>)) \<noteq> 0"
proof -
  have h1: "steps report_only_agent = []"
    by (simp add: report_only_agent_def init_agent_def Let_def)
  have h2: "overall_success report_only_agent"
    by (simp add: report_only_agent_def init_agent_def Let_def)
  have recorded: "map status (steps (fst (run report_only_agent))) = [STATUS_SUCCESS]"
    by (simp add: report_only_agent_def init_agent_def Let_def run_def report_workflow_def
          generate_report_def execute_step_def add_step_result_def dependency_arg_def
          generate_and_print_final_report_def)
  have nf: "\<forall>r \<in> set (steps (fst (run report_only_agent))). status r \<noteq> STATUS_FAILURE"
  proof
    fix r assume "r \<in> set (steps (fst (run report_only_agent)))"
    then have "status r \<in> set (map status (steps (fst (run report_only_agent))))" by simp
    then show "status r \<noteq> STATUS_FAILURE" unfolding recorded by simp
  qed
  from overall_status_and_exit_code[OF h1 h2] nf h1 h2 show ?thesis by simp
qed

text \<open>
  C4. The effective commit intent is false in review-only mode, otherwise false in no-commit
  mode, otherwise the resolved commit flag, which is true when neither flag of the commit
  group was given (and when \<^verbatim>\<open>--commit\<close> was). The constructor stores it, and \<open>run\<close>
  never changes it.
\<close>

theorem effective_commit_intent:
  "effective_commit True nc c = False
   \<and> effective_commit False True c = False
   \<and> effective_commit False False c = c
   \<and> resolve_commit False False = True
   \<and> resolve_commit True cf = True
   \<and> resolve_commit False True = False
   \<and> do_commit (init_agent ro nc ct cf wflow vs w) = effective_commit ro nc (resolve_commit ct cf)
   \<and> do_commit (fst (run a)) = do_commit a"
  by (simp add: effective_commit_def resolve_commit_def init_agent_def Let_def run_def
        generate_and_print_final_report_def add_step_result_custom_def run_loop_do_commit)

theorem effective_commit_intent_witness:
  "do_commit (init_agent False True True False report_workflow [] ()) = False
   \<and> do_commit (init_agent False False False False report_workflow [] ()) = True
   \<and> do_commit (fst (run report_only_agent)) = do_commit report_only_agent"
  using effective_commit_intent[where ro = False and nc = True and ct = True and cf = False
          and c = True and wflow = report_workflow and vs = "[]" and w = "()" and a = report_only_agent]
        effective_commit_intent[where ro = False and nc = False and ct = False and cf = False
          and c = True and wflow = report_workflow and vs = "[]" and w = "()" and a = report_only_agent]
  by simp


subsection \<open>Review-only mode\<close>



lemmas example_defs = init_agent_def effective_commit_def resolve_commit_def run_def example_workflow_def
  execute_step_def add_step_result_def add_step_result_custom_def dependency_arg_def dependency_of_def
  generate_and_print_final_report_def step_summary_def generate_report_def always_succeeds_def
  skip_reason_def Let_def



subsection \<open>What is recorded after a failure\<close>

lemma execute_step_running:
  assumes "running a" "execute_step nm f outs dep a = (ok, a', outs')"
  shows "if ok then running a' else failure_only_last a'"
  using assms
  by (auto simp: execute_step_def running_def failure_only_last_def add_step_result_def Let_def
           split: if_splits prod.splits step_outcome.splits)

lemma execute_step_running_calls:
  assumes "running a" "execute_step nm f outs dep a = (ok, a', outs')"
  shows "invoked a' = invoked a @ [nm]"
  using assms
  by (auto simp: execute_step_def running_def add_step_result_def Let_def
           split: if_splits prod.splits step_outcome.splits)

lemma running_failure_only_last: "running a \<Longrightarrow> failure_only_last a"
  by (auto simp: running_def failure_only_last_def dest: in_set_butlastD)

lemma run_loop_failure_only_last:
  assumes "running a"
  shows "failure_only_last (run_loop vs outs a)"
proof (rule run_loop_rule[where I = running and Q = failure_only_last])
  show "running a" by fact
next
  fix a :: "'a agent" assume "running a"
  then show "failure_only_last a" by (rule running_failure_only_last)
next
  fix a :: "'a agent" and nm d em
  assume "running a"
  then show "failure_only_last (add_step_result_custom nm STATUS_FAILURE d em (a\<lparr>overall_success := False\<rparr>))"
    by (simp add: running_def failure_only_last_def add_step_result_custom_def)
next
  fix a :: "'a agent" and d
  assume "running a"
  then show "running (add_step_result_custom ''run_precommit'' STATUS_SKIPPED d None a)"
    by (simp add: running_def add_step_result_custom_def)
next
  fix a :: "'a agent" and d
  assume "running a"
  then show "running
     ((add_step_result_custom ''commit_changes'' STATUS_SKIPPED d None a)\<lparr>commit_attempted := False\<rparr>)"
    by (simp add: running_def add_step_result_custom_def)
next
  fix a a' :: "'a agent" and nm f outs dep ok outs'
  assume "running a" "execute_step nm f outs dep a = (ok, a', outs')"
  then show "if ok then running a' else failure_only_last a'" by (rule execute_step_running)
next
  fix a :: "'a agent"
  assume "running a" "steps a \<noteq> []" "status (last (steps a)) = STATUS_FAILURE"
  then show "failure_only_last (a\<lparr>overall_success := False\<rparr>)"
    using last_in_set[of "steps a"] by (auto simp: running_def)
qed

lemma run_failure_only_last:
  assumes "steps a = []" and "overall_success a"
  shows "failure_only_last (fst (run a))"
proof (cases "validation_steps a = []")
  case True
  with assms show ?thesis
    by (simp add: run_def failure_only_last_def generate_and_print_final_report_def
          add_step_result_custom_def)
next
  case False
  have "running a" using assms by (simp add: running_def)
  from run_loop_failure_only_last[OF this, of "validation_steps a" Map.empty] False
  show ?thesis
    by (simp add: run_def failure_only_last_def generate_and_print_final_report_def Let_def)
qed

text \<open>
  C1. With the steps \<open>format_code\<close>, \<open>lint_code\<close>, \<open>generate_report\<close> configured and
  \<^verbatim>\<open>ruff format\<close> exiting with code 2, the first step is recorded as FAILURE and the loop
  ends: the results hold that one entry, nothing is recorded for \<open>lint_code\<close> (no SKIPPED
  entry) nor for the report step, and the exit code is 1.
\<close>

theorem failure_truncates_results:
  "map step_summary (steps (fst (run (init_agent False False False False example_workflow
        [''format_code'', ''lint_code'', ''generate_report''] ()))))
     = [(''format_code'', STATUS_FAILURE)]
   \<and> snd (run (init_agent False False False False example_workflow
        [''format_code'', ''lint_code'', ''generate_report''] ())) = 1"
proof -
  have two: "str_int 2 = ''2''" by code_simp
  have tool: "run_tool ruff_resolver id ''180.0'' exits_with_2 [''ruff'', ''format'', ''src/main.py'']
     = Inr \<lparr>args = [''/usr/bin/ruff'', ''format'', ''src/main.py''], returncode = 2, stdout = [],
            stderr = ''error: invalid file''\<rparr>"
    by (simp add: run_tool_def find_executable_def ruff_resolver_def exits_with_2_def)
  show ?thesis
    by (simp add: example_defs format_code_def tool two)
qed

section \<open>Properties of the tool runner and the environment manager\<close>







lemma setup_venv_success:
  assumes "fst (setup_venv vp create upgrade m) = None"
  shows "venv_kind (files (snd (setup_venv vp create upgrade m))) = Directory
       \<and> python_is_executable (files (snd (setup_venv vp create upgrade m)))
       \<and> pip_is_executable (files (snd (setup_venv vp create upgrade m)))
       \<and> creations (snd (setup_venv vp create upgrade m))
           = creations m + (if venv_kind (files m) = Missing then 1 else 0)"
proof (cases "venv_kind (files m) = Missing")
  case False
  with assms show ?thesis
    by (simp add: setup_venv_def Let_def find_venv_executable_def
             split: if_splits sum.splits scribe_tool_error.splits)
next
  case True
  obtain res fs' where c: "create (files m) = (res, fs')" by (cases "create (files m)")
  show ?thesis
  proof (cases res)
    case (Inl e)
    with assms True c show ?thesis
      by (cases e) (simp add: setup_venv_def Let_def)
  next
    case (Inr cp)
    with assms True c show ?thesis
      by (simp add: setup_venv_def Let_def find_venv_executable_def
               split: if_splits sum.splits scribe_tool_error.splits)
  qed
qed

lemma setup_venv_existing:
  assumes "venv_kind (files m) = Directory" "python_is_executable (files m)" "pip_is_executable (files m)"
  shows "fst (setup_venv vp create upgrade m) = None
       \<and> creations (snd (setup_venv vp create upgrade m)) = creations m
       \<and> files (snd (setup_venv vp create upgrade m)) = files m"
  using assms
  by (simp add: setup_venv_def Let_def find_venv_executable_def
           split: sum.splits scribe_tool_error.splits)

text \<open>
  C8. When a call of \<open>setup_venv\<close> succeeds, it has run the creation command once if there was
  nothing at the path of the environment (and not at all if the environment was there), and
  a second call on the state it leaves succeeds too, runs no creation command and leaves
  the files as they are: over the two calls the environment is created exactly once.
\<close>

theorem setup_venv_idempotent:
  assumes "fst (setup_venv vp create upgrade m) = None"
  shows "creations (snd (setup_venv vp create upgrade m))
           = creations m + (if venv_kind (files m) = Missing then 1 else 0)
       \<and> fst (setup_venv vp create upgrade (snd (setup_venv vp create upgrade m))) = None
       \<and> creations (snd (setup_venv vp create upgrade (snd (setup_venv vp create upgrade m))))
           = creations (snd (setup_venv vp create upgrade m))
       \<and> files (snd (setup_venv vp create upgrade (snd (setup_venv vp create upgrade m))))
           = files (snd (setup_venv vp create upgrade m))"
proof -
  from setup_venv_success[OF assms]
  have d: "venv_kind (files (snd (setup_venv vp create upgrade m))) = Directory"
    and py: "python_is_executable (files (snd (setup_venv vp create upgrade m)))"
    and pip: "pip_is_executable (files (snd (setup_venv vp create upgrade m)))"
    and cr: "creations (snd (setup_venv vp create upgrade m))
           = creations m + (if venv_kind (files m) = Missing then 1 else 0)"
    by blast+
  from setup_venv_existing[OF d py pip, of vp create upgrade] cr show ?thesis by blast
qed

theorem setup_venv_idempotent_witness:
  "fst (setup_venv ''/proj/.venv'' venv_created upgrade_fails fresh_manager) = None
   \<and> creations (snd (setup_venv ''/proj/.venv'' venv_created upgrade_fails fresh_manager)) = 1
   \<and> fst (setup_venv ''/proj/.venv'' venv_created upgrade_fails
            (snd (setup_venv ''/proj/.venv'' venv_created upgrade_fails fresh_manager))) = None
   \<and> creations (snd (setup_venv ''/proj/.venv'' venv_created upgrade_fails
            (snd (setup_venv ''/proj/.venv'' venv_created upgrade_fails fresh_manager)))) = 1"
proof -
  have first: "fst (setup_venv ''/proj/.venv'' venv_created upgrade_fails fresh_manager) = None"
    by (simp add: setup_venv_def fresh_manager_def venv_created_def upgrade_fails_def
          find_venv_executable_def Let_def)
  have fresh: "venv_kind (files fresh_manager) = Missing" "creations fresh_manager = 0"
    by (simp_all add: fresh_manager_def)
  from setup_venv_idempotent[OF first] first fresh show ?thesis by simp
qed

section \<open>Properties of the LLM client\<close>

lemma network_error_classes_unbound:
  "network_error_classes (Some library) =
     Inl (not_defined (case library of Httpx \<Rightarrow> ''requests'' | Requests \<Rightarrow> ''httpx''))"
  by (cases library) (simp_all add: network_error_classes_def name_bound_def)

lemma api_loop_first_attempt:
  "api_loop (Some library) try_once retries d a (Suc n) lexc tr =
     ((case try_once a of
         Inr json \<Rightarrow> Inr json
       | Inl e \<Rightarrow>
           Inl (NameError (not_defined (case library of Httpx \<Rightarrow> ''requests'' | Requests \<Rightarrow> ''httpx'')))),
      tr\<lparr>attempts := attempts tr + 1\<rparr>)"
  by (simp add: network_error_classes_unbound Let_def split: sum.splits)

text \<open>
  C5. \<open>_call_api\<close> never makes a second attempt. With an HTTP library found and a retry
  count that is not negative, the first attempt is made and the call ends with it: a good
  response is returned, and any exception of the attempt (a network failure or timeout, a
  JSON decode error, an error that the response reports) reaches the first handler, whose
  tuple names both \<^verbatim>\<open>httpx\<close> and \<^verbatim>\<open>requests\<close> while the module binds only one of them. So
  a \<^verbatim>\<open>NameError\<close> for the other name leaves \<open>_call_api\<close> after one attempt: there is no
  sleep, no retry, and no \<open>ScribeApiError\<close> carrying the failure as its cause. With two
  retries configured and a timeout on every attempt there is one attempt, not three.
\<close>

theorem call_api_never_retries:
  assumes "0 \<le> retries"
  shows "call_api (Some library) http_client mdl retries delay backend p fmt =
           ((case try_post (Some library) http_client (backend (request_body mdl p fmt)) 0 of
               Inr json \<Rightarrow> Inr json
             | Inl e \<Rightarrow>
                 Inl (NameError
                        (not_defined (case library of Httpx \<Rightarrow> ''requests'' | Requests \<Rightarrow> ''httpx'')))),
            \<lparr>attempts = 1, sleeps = []\<rparr>)"
proof -
  from assms obtain n where n: "nat (retries + 1) = Suc n"
    by (cases "nat (retries + 1)") auto
  show ?thesis
    unfolding call_api_def n
    by (simp add: api_loop_first_attempt del: api_loop.simps)
qed

theorem call_api_never_retries_witness:
  "call_api (Some Httpx) True ''gemma:2b'' 2 (5 :: nat) timeout_backend ''prompt'' None =
     (Inl (NameError (not_defined ''requests'')), \<lparr>attempts = 1, sleeps = []\<rparr>)
   \<and> call_api (Some Requests) False ''gemma:2b'' 2 (5 :: nat) timeout_backend ''prompt'' None =
     (Inl (NameError (not_defined ''httpx'')), \<lparr>attempts = 1, sleeps = []\<rparr>)
   \<and> call_api (Some Httpx) True ''gemma:2b'' 2 (5 :: nat) slow_backend ''prompt'' None =
     (Inl (NameError (not_defined ''requests'')), \<lparr>attempts = 1, sleeps = []\<rparr>)
   \<and> call_api (Some Httpx) True ''gemma:2b'' 2 (5 :: nat) garbled_backend ''prompt'' None =
     (Inl (NameError (not_defined ''requests'')), \<lparr>attempts = 1, sleeps = []\<rparr>)
   \<and> call_api (Some Httpx) True ''gemma:2b'' 2 (5 :: nat) prompt_backend ''prompt'' None =
     (Inr \<lparr>error_field = None, response_field = Some ''ok''\<rparr>, \<lparr>attempts = 1, sleeps = []\<rparr>)
   \<and> not_defined ''requests'' = ''name '' @ [SQ] @ ''requests'' @ [SQ] @ '' is not defined''"
proof -
  have nonneg: "(0 :: int) \<le> 2" by simp
  note inst = call_api_never_retries[OF nonneg, where mdl = "''gemma:2b''" and p = "''prompt''"
                 and fmt = None and delay = "5 :: nat"]
  have a: "call_api (Some Httpx) True ''gemma:2b'' 2 (5 :: nat) timeout_backend ''prompt'' None =
     (Inl (NameError (not_defined ''requests'')), \<lparr>attempts = 1, sleeps = []\<rparr>)"
    using inst[where backend = timeout_backend and library = Httpx and http_client = True]
    by (simp add: timeout_backend_def try_post_def)
  have b: "call_api (Some Requests) False ''gemma:2b'' 2 (5 :: nat) timeout_backend ''prompt'' None =
     (Inl (NameError (not_defined ''httpx'')), \<lparr>attempts = 1, sleeps = []\<rparr>)"
    using inst[where backend = timeout_backend and library = Requests and http_client = False]
    by (simp add: timeout_backend_def try_post_def)
  have c: "call_api (Some Httpx) True ''gemma:2b'' 2 (5 :: nat) slow_backend ''prompt'' None =
     (Inl (NameError (not_defined ''requests'')), \<lparr>attempts = 1, sleeps = []\<rparr>)"
    using inst[where backend = slow_backend and library = Httpx and http_client = True]
    by (simp add: slow_backend_def try_post_def)
  have d: "call_api (Some Httpx) True ''gemma:2b'' 2 (5 :: nat) garbled_backend ''prompt'' None =
     (Inl (NameError (not_defined ''requests'')), \<lparr>attempts = 1, sleeps = []\<rparr>)"
    using inst[where backend = garbled_backend and library = Httpx and http_client = True]
    by (simp add: garbled_backend_def try_post_def)
  have e: "call_api (Some Httpx) True ''gemma:2b'' 2 (5 :: nat) prompt_backend ''prompt'' None =
     (Inr \<lparr>error_field = None, response_field = Some ''ok''\<rparr>, \<lparr>attempts = 1, sleeps = []\<rparr>)"
    using inst[where backend = prompt_backend and library = Httpx and http_client = True]
    by (simp add: prompt_backend_def try_post_def)
  have f: "not_defined ''requests'' = ''name '' @ [SQ] @ ''requests'' @ [SQ] @ '' is not defined''"
    by (simp add: not_defined_def)
  from a b c d e f show ?thesis by simp
qed









lemmas regex_defs = fence_def closing_def python_opening_def generic_opening_def match_here_def
  matches_python_def python_letters_def tag_char_def block_separator_def strip_def py_isspace_def
  extract_code_from_response_def


text \<open>Blocks whose text has no backtick are found as they stand.\<close>

lemma until_closing_block:
  assumes "BT \<notin> set body"
  shows "until_closing (body @ closing @ rest) = Some (body, rest)"
  using assms
proof (induction body)
  case Nil
  then show ?case by (simp add: closing_def fence_def)
next
  case (Cons c cs)
  have "take 4 ((c # cs) @ closing @ rest) \<noteq> closing"
  proof (cases cs)
    case Nil
    then show ?thesis by (simp add: closing_def fence_def)
  next
    case (Cons c' cs')
    with Cons.prems show ?thesis by (auto simp: closing_def fence_def)
  qed
  with Cons show ?case by simp
qed

lemma no_backtick_no_opening:
  assumes "c \<noteq> BT"
  shows "python_opening (c # cs) = None" "generic_opening (c # cs) = None"
  using assms by (simp_all add: python_opening_def generic_opening_def fence_def)

lemma findall_skip:
  assumes "BT \<notin> set pre" "opening = python_opening \<or> opening = generic_opening"
  shows "findall opening (pre @ s) = findall opening s"
  using assms(1)
proof (induction pre)
  case Nil
  then show ?case by simp
next
  case (Cons c cs)
  then have "match_here opening (c # cs @ s) = None"
    using assms(2) no_backtick_no_opening[of c "cs @ s"] by (auto simp: match_here_def)
  with Cons show ?case by simp
qed

lemma findall_python_block:
  assumes "BT \<notin> set body" "matches_python tag"
  shows "findall python_opening (fence @ tag @ [NL] @ body @ closing @ rest)
           = body # findall python_opening rest"
proof -
  have len: "length tag = 6" using assms(2)
    by (auto simp: matches_python_def python_letters_def dest: list_all2_lengthD)
  have "python_opening (fence @ tag @ [NL] @ body @ closing @ rest) = Some 10"
    using assms(2) len by (simp add: python_opening_def fence_def)
  moreover have "drop 10 (fence @ tag @ [NL] @ body @ closing @ rest) = body @ closing @ rest"
    using len by (simp add: fence_def)
  ultimately have "match_here python_opening (fence @ tag @ [NL] @ body @ closing @ rest) = Some (body, rest)"
    using until_closing_block[OF assms(1)] by (simp add: match_here_def)
  moreover have "fence @ tag @ [NL] @ body @ closing @ rest = BT # (tl fence @ tag @ [NL] @ body @ closing @ rest)"
    by (simp add: fence_def)
  ultimately show ?thesis by (metis (no_types, lifting) findall.simps(2) option.simps(5) prod.simps(2))
qed

lemma findall_no_backtick:
  assumes "BT \<notin> set s" "opening = python_opening \<or> opening = generic_opening"
  shows "findall opening s = []"
  using findall_skip[OF assms, of "[]"] by simp

lemma extract_code_two_python_blocks:
  assumes "BT \<notin> set pre" "BT \<notin> set mid" "BT \<notin> set post" "BT \<notin> set b1" "BT \<notin> set b2"
    and "matches_python tag1" "matches_python tag2"
  shows "extract_code_from_response
           (pre @ fence @ tag1 @ [NL] @ b1 @ closing @ mid @ fence @ tag2 @ [NL] @ b2 @ closing @ post)
         = strip (py_join block_separator [strip b1, strip b2])"
proof -
  have "findall python_opening
          (pre @ fence @ tag1 @ [NL] @ b1 @ closing @ mid @ fence @ tag2 @ [NL] @ b2 @ closing @ post)
        = findall python_opening
          (fence @ tag1 @ [NL] @ b1 @ closing @ (mid @ fence @ tag2 @ [NL] @ b2 @ closing @ post))"
    using findall_skip[OF assms(1), of python_opening] by simp
  also have "\<dots> = b1 # findall python_opening (mid @ fence @ tag2 @ [NL] @ b2 @ closing @ post)"
    by (rule findall_python_block[OF assms(4) assms(6)])
  also have "findall python_opening (mid @ fence @ tag2 @ [NL] @ b2 @ closing @ post)
               = findall python_opening (fence @ tag2 @ [NL] @ b2 @ closing @ post)"
    using findall_skip[OF assms(2), of python_opening] by simp
  also have "\<dots> = b2 # findall python_opening post"
    by (rule findall_python_block[OF assms(5) assms(7)])
  also have "findall python_opening post = []"
    using findall_no_backtick[OF assms(3)] by simp
  finally show ?thesis by (simp add: extract_code_from_response_def)
qed


section \<open>Properties of the AI steps\<close>

lemma llm_generate_tests_nonempty:
  "llm_generate_tests fmt call ast_parse code fn sigs = Inr (Some t) \<Longrightarrow> t \<noteq> [] \<and> ast_parse t = Parsed"
  by (auto simp: llm_generate_tests_def Let_def
           split: sum.splits if_splits parse_outcome.splits option.splits)

text \<open>
  C9, as the code has it. The test generation step returns SUCCESS exactly when the LLM client
  returned test code that is not empty, and FAILURE otherwise. The review step returns
  ADVISORY whenever it returns, whether or not findings were extracted: its status never
  depends on the review.
\<close>

theorem ai_step_statuses:
  "fst (generate_tests_result tests) = (if tests = None \<or> tests = Some [] then STATUS_FAILURE else STATUS_SUCCESS)
   \<and> fst (review_code_result review) = STATUS_ADVISORY
   \<and> (generate_tests llm target sig_details = Returned st d \<longrightarrow>
        st = (if \<exists>t. t \<noteq> [] \<and> llm (snd target) (fst target) (signatures_of sig_details) = Inr (Some t)
              then STATUS_SUCCESS else STATUS_FAILURE))
   \<and> (review_code rlm target = Returned st d \<longrightarrow> st = STATUS_ADVISORY)"
  by (auto simp: generate_tests_result_def review_code_result_def generate_tests_def review_code_def Let_def
           split: option.splits list.splits sum.splits scribe_configuration_error.splits)

theorem ai_step_statuses_witness:
  "fst (generate_tests_result (Some ''import pytest'')) = STATUS_SUCCESS
   \<and> fst (generate_tests_result None) = STATUS_FAILURE
   \<and> fst (review_code_result (Some [[(''severity'', ''low'')]])) = STATUS_ADVISORY
   \<and> generate_tests (llm_generate_tests plain_test_prompt (replies_with one_block_response)
                        (accepts_only ''import pytest'')) (''main.py'', ''x = 1'') None
       = Returned STATUS_SUCCESS
           [(''raw_output'', PyStr ''import pytest''), (''message'', PyStr ''Tests AI-generated.'')]
   \<and> generate_tests (llm_generate_tests plain_test_prompt (replies_with unfenced_response)
                        (accepts_only ''import pytest'')) (''main.py'', ''x = 1'') None
       = Returned STATUS_FAILURE [(''raw_output'', PyNone), (''message'', PyStr ''Test gen failed.'')]"
proof -
  have ex: "extract_code_from_response one_block_response = ''import pytest''"
      "extract_code_from_response unfenced_response = ''x = 1''"
    by (simp_all add: one_block_response_def unfenced_response_def regex_defs)
  have nb: "strip one_block_response \<noteq> []" "strip unfenced_response \<noteq> []"
    by (simp_all add: one_block_response_def unfenced_response_def regex_defs)
  have g1: "generate_tests (llm_generate_tests plain_test_prompt (replies_with one_block_response)
                        (accepts_only ''import pytest'')) (''main.py'', ''x = 1'') None
       = Returned STATUS_SUCCESS
           [(''raw_output'', PyStr ''import pytest''), (''message'', PyStr ''Tests AI-generated.'')]"
    using ex nb
    by (simp add: generate_tests_def llm_generate_tests_def plain_test_prompt_def replies_with_def
          accepts_only_def generate_tests_result_def signatures_of_def Let_def)
  have g2: "generate_tests (llm_generate_tests plain_test_prompt (replies_with unfenced_response)
                        (accepts_only ''import pytest'')) (''main.py'', ''x = 1'') None
       = Returned STATUS_FAILURE [(''raw_output'', PyNone), (''message'', PyStr ''Test gen failed.'')]"
    using ex nb
    by (simp add: generate_tests_def llm_generate_tests_def plain_test_prompt_def replies_with_def
          accepts_only_def generate_tests_result_def signatures_of_def Let_def)
  from ai_step_statuses[where tests = "Some ''import pytest''" and review = "Some [[(''severity'', ''low'')]]"]
       ai_step_statuses[where tests = None] g1 g2
  show ?thesis by simp
qed

text \<open>
  C9 as the specification words it fails for the review step: when no findings are extracted
  (the LLM client returns \<open>None\<close>, which is what \<open>llm_generate_review\<close> always does), the step
  still reports ADVISORY, not FAILURE.
\<close>

theorem review_failure_counterexample:
  "llm_generate_review plain_review_prompt ''x = 1'' ''main.py'' = Inr None
   \<and> review_code (llm_generate_review plain_review_prompt) (''main.py'', ''x = 1'')
       = Returned STATUS_ADVISORY
           [(''issues_found'', PyFindings []), (''message'', PyStr ''AI review found 0 items.'')]
   \<and> fst (review_code_result None) \<noteq> STATUS_FAILURE"
proof -
  have zero: "str_nat 0 = ''0''" by code_simp
  show ?thesis
    by (simp add: llm_generate_review_def plain_review_prompt_def review_code_def review_code_result_def zero)
qed

lemma llm_generate_tests_syntax_error:
  assumes "fmt (truncate_for_prompt 7000 code) fn (truncate_for_prompt 1000 sigs) = Inr prompt_text"
    and "call prompt_text = Inr resp" and "response_field resp = Some raw"
    and "ast_parse (extract_code_from_response raw) = RaisesSyntaxError m"
  shows "llm_generate_tests fmt call ast_parse code fn sigs = Inr None"
  using assms by (simp add: llm_generate_tests_def Let_def)

text \<open>
  C10. The LLM client returns test code only when that code is not empty and Python's
  parser accepted it; when the parser raises a syntax error the client returns \<open>None\<close>, for
  which the step reports FAILURE. When the test generation step has returned SUCCESS, the
  save step, given that step's details (which is what the orchestrator passes to it), writes
  exactly one file, and its text is code that the parser accepted.
\<close>

theorem generated_tests_are_parsed:
  "(llm_generate_tests fmt call ast_parse code fn sigs = Inr (Some t) \<longrightarrow> t \<noteq> [] \<and> ast_parse t = Parsed)
   \<and> (fmt (truncate_for_prompt 7000 code) fn (truncate_for_prompt 1000 sigs) = Inr prompt_text \<longrightarrow>
        call prompt_text = Inr resp \<longrightarrow> response_field resp = Some raw \<longrightarrow>
        ast_parse (extract_code_from_response raw) = RaisesSyntaxError m \<longrightarrow>
        llm_generate_tests fmt call ast_parse code fn sigs = Inr None
        \<and> fst (generate_tests_result None) = STATUS_FAILURE)
   \<and> (generate_tests (llm_generate_tests fmt call ast_parse) target sig_details = Returned STATUS_SUCCESS d \<longrightarrow>
        (\<exists>t. ast_parse t = Parsed
            \<and> save_tests target_dir stem (Some d) project_files
                = (Returned STATUS_SUCCESS
                     [(''generated_content_path'', PyStr (test_file_path target_dir stem)),
                      (''raw_output'', PyStr (test_file_path target_dir stem))],
                   project_files(test_file_path target_dir stem \<mapsto> t))))
   \<and> dependency_arg step_outputs ''save_tests'' = dependency_of step_outputs ''generate_tests''"
proof (intro conjI impI)
  assume "llm_generate_tests fmt call ast_parse code fn sigs = Inr (Some t)"
  then show "t \<noteq> []" "ast_parse t = Parsed" using llm_generate_tests_nonempty by blast+
next
  assume "fmt (truncate_for_prompt 7000 code) fn (truncate_for_prompt 1000 sigs) = Inr prompt_text"
    "call prompt_text = Inr resp" "response_field resp = Some raw"
    "ast_parse (extract_code_from_response raw) = RaisesSyntaxError m"
  then show "llm_generate_tests fmt call ast_parse code fn sigs = Inr None"
    by (rule llm_generate_tests_syntax_error)
  show "fst (generate_tests_result None) = STATUS_FAILURE" by (simp add: generate_tests_result_def)
next
  assume g: "generate_tests (llm_generate_tests fmt call ast_parse) target sig_details = Returned STATUS_SUCCESS d"
  let ?r = "llm_generate_tests fmt call ast_parse (snd target) (fst target) (signatures_of sig_details)"
  from g obtain tests where r: "?r = Inr tests" and gr: "generate_tests_result tests = (STATUS_SUCCESS, d)"
    by (auto simp: generate_tests_def split: sum.splits scribe_configuration_error.splits prod.splits)
  from gr obtain c cs where t: "tests = Some (c # cs)"
    and d: "d = [(''raw_output'', PyStr (c # cs)), (''message'', PyStr ''Tests AI-generated.'')]"
    by (auto simp: generate_tests_result_def split: option.splits list.splits)
  from r t have "ast_parse (c # cs) = Parsed" using llm_generate_tests_nonempty by blast
  moreover have "save_tests target_dir stem (Some d) project_files
                = (Returned STATUS_SUCCESS
                     [(''generated_content_path'', PyStr (test_file_path target_dir stem)),
                      (''raw_output'', PyStr (test_file_path target_dir stem))],
                   project_files(test_file_path target_dir stem \<mapsto> c # cs))"
    by (simp add: save_tests_def d dict_get_def Let_def)
  ultimately show "\<exists>t. ast_parse t = Parsed
            \<and> save_tests target_dir stem (Some d) project_files
                = (Returned STATUS_SUCCESS
                     [(''generated_content_path'', PyStr (test_file_path target_dir stem)),
                      (''raw_output'', PyStr (test_file_path target_dir stem))],
                   project_files(test_file_path target_dir stem \<mapsto> t))"
    by blast
next
  show "dependency_arg step_outputs ''save_tests'' = dependency_of step_outputs ''generate_tests''"
    by (simp add: dependency_arg_def)
qed

theorem generated_tests_are_parsed_witness:
  "llm_generate_tests plain_test_prompt (replies_with one_block_response) (accepts_only ''import pytest'')
       ''x = 1'' ''main.py'' [] = Inr (Some ''import pytest'')
   \<and> accepts_only ''import pytest'' ''import pytest'' = Parsed
   \<and> llm_generate_tests plain_test_prompt (replies_with unfenced_response) (accepts_only ''import pytest'')
       ''x = 1'' ''main.py'' [] = Inr None
   \<and> snd (save_tests ''/proj'' ''main''
            (Some [(''raw_output'', PyStr ''import pytest''), (''message'', PyStr ''Tests AI-generated.'')])
            Map.empty) ''/proj/tests/scribe_generated/test_main_scribe.py''
       = Some ''import pytest''"
proof -
  have ex: "extract_code_from_response one_block_response = ''import pytest''"
      "extract_code_from_response unfenced_response = ''x = 1''"
    by (simp_all add: one_block_response_def unfenced_response_def regex_defs)
  have nb: "strip one_block_response \<noteq> []" "strip unfenced_response \<noteq> []"
    by (simp_all add: one_block_response_def unfenced_response_def regex_defs)
  have l1: "llm_generate_tests plain_test_prompt (replies_with one_block_response) (accepts_only ''import pytest'')
       ''x = 1'' ''main.py'' [] = Inr (Some ''import pytest'')"
    using ex nb
    by (simp add: llm_generate_tests_def plain_test_prompt_def replies_with_def accepts_only_def Let_def)
  have g1: "generate_tests (llm_generate_tests plain_test_prompt (replies_with one_block_response)
                        (accepts_only ''import pytest'')) (''main.py'', ''x = 1'') None
       = Returned STATUS_SUCCESS
           [(''raw_output'', PyStr ''import pytest''), (''message'', PyStr ''Tests AI-generated.'')]"
    using l1 by (simp add: generate_tests_def generate_tests_result_def signatures_of_def)
  have path: "test_file_path ''/proj'' ''main'' = ''/proj/tests/scribe_generated/test_main_scribe.py''"
    by (simp add: test_file_path_def SCRIBE_TEST_DIR_def py_isalnum_def)
  note t = generated_tests_are_parsed[where fmt = plain_test_prompt and ast_parse = "accepts_only ''import pytest''"
             and code = "''x = 1''" and fn = "''main.py''" and sigs = "[]" and target = "(''main.py'', ''x = 1'')"
             and sig_details = None and target_dir = "''/proj''" and stem = "''main''"
             and project_files = Map.empty
             and d = "[(''raw_output'', PyStr ''import pytest''), (''message'', PyStr ''Tests AI-generated.'')]"]
  from t[where call = "replies_with one_block_response" and t = "''import pytest''"] l1
  have a: "accepts_only ''import pytest'' ''import pytest'' = Parsed" by simp
  from t[where call = "replies_with unfenced_response" and prompt_text = "''Write tests for main.py''"
           and resp = "\<lparr>error_field = None, response_field = Some unfenced_response\<rparr>"
           and raw = unfenced_response and m = "''invalid syntax''"] ex
  have b: "llm_generate_tests plain_test_prompt (replies_with unfenced_response) (accepts_only ''import pytest'')
       ''x = 1'' ''main.py'' [] = Inr None"
    by (simp add: plain_test_prompt_def replies_with_def accepts_only_def)
  from t[where call = "replies_with one_block_response" and t = "''import pytest''"
           and prompt_text = "[]" and resp = "\<lparr>error_field = None, response_field = None\<rparr>"
           and raw = "[]" and m = "[]" and step_outputs = Map.empty] g1
  have "\<exists>t. accepts_only ''import pytest'' t = Parsed \<and>
             save_tests ''/proj'' ''main''
               (Some [(''raw_output'', PyStr ''import pytest''), (''message'', PyStr ''Tests AI-generated.'')])
               Map.empty
             = (Returned STATUS_SUCCESS
                  [(''generated_content_path'', PyStr (test_file_path ''/proj'' ''main'')),
                   (''raw_output'', PyStr (test_file_path ''/proj'' ''main''))],
                [test_file_path ''/proj'' ''main'' \<mapsto> t])"
    by blast
  then obtain t' where "accepts_only ''import pytest'' t' = Parsed"
    and "save_tests ''/proj'' ''main''
            (Some [(''raw_output'', PyStr ''import pytest''), (''message'', PyStr ''Tests AI-generated.'')])
            Map.empty
         = (Returned STATUS_SUCCESS
              [(''generated_content_path'', PyStr (test_file_path ''/proj'' ''main'')),
               (''raw_output'', PyStr (test_file_path ''/proj'' ''main''))],
            [test_file_path ''/proj'' ''main'' \<mapsto> t'])"
    by blast
  then have c: "snd (save_tests ''/proj'' ''main''
            (Some [(''raw_output'', PyStr ''import pytest''), (''message'', PyStr ''Tests AI-generated.'')])
            Map.empty) ''/proj/tests/scribe_generated/test_main_scribe.py''
       = Some ''import pytest''"
    by (simp add: path accepts_only_def split: if_splits)
  from l1 a b c show ?thesis by simp
qed

end
